theory Spec2Isabelle
  imports Complex_Main
begin

section \<open>AetherFrame: the pipeline orchestration engine\<close>

text \<open>
  A shallow embedding of \<^verbatim>\<open>aetherframe/core/pipeline.py\<close>,
  \<^verbatim>\<open>aetherframe/plugins/registry.py\<close>, \<^verbatim>\<open>aetherframe/core/orchestrator.py\<close>,
  \<^verbatim>\<open>aetherframe/core/tasks.py\<close> and \<^verbatim>\<open>aetherframe/core/repository.py\<close>.
  Exceptions are values (\<open>Inl\<close> of a sum), Python dictionaries are maps, mutation is
  explicit state passing, and the \<^verbatim>\<open>for\<close> loops are recursion over the list they
  iterate.
\<close>

subsection \<open>Python values and exceptions\<close>

text \<open>The values of the schema-less dictionaries (\<^verbatim>\<open>Dict[str, Any]\<close>). A float is a rational.\<close>

datatype pyval =
    PNone
  | PBool bool
  | PInt int
  | PFloat rat
  | PStr string
  | PList "pyval list"
  | PDict "(string \<times> pyval) list"

type_synonym pydict = "string \<rightharpoonup> pyval"

datatype exn_kind =
  ValueError | KeyError | TypeError | ImportError | RuntimeError | SQLAlchemyError

text \<open>An exception: its class and \<^verbatim>\<open>str(e)\<close>.\<close>

datatype exn = Exn exn_kind string

text \<open>\<^verbatim>\<open>str\<close> of a \<^verbatim>\<open>KeyError\<close> is the \<^verbatim>\<open>repr\<close> of its argument, in quotes.\<close>

fun str_exn :: "exn \<Rightarrow> string" where
  "str_exn (Exn KeyError m) = CHR 0x27 # m @ [CHR 0x27]"
| "str_exn (Exn k m) = m"

subsection \<open>Schemas\<close>

text \<open>\<^verbatim>\<open>schemas/job.py\<close>\<close>

datatype JobStatus = pending | running | job_done | failed | cancelled

datatype TargetType = binary | apk | pid | memory_dump | trace_log

record Job =
  job_id :: int
  target :: string
  target_type :: TargetType
  status :: JobStatus
  job_pipeline_id :: string
  current_stage :: "string option"
  options :: pydict
  tags :: "string list"
  created_by :: string
  job_error :: "string option"

text \<open>\<^verbatim>\<open>schemas/finding.py\<close>, \<^verbatim>\<open>schemas/artifact.py\<close>\<close>

datatype Severity = info | low | medium | high | critical

record Finding =
  f_job_id :: int
  severity :: Severity
  category :: string
  title :: string
  confidence :: rat
  f_plugin_id :: "string option"
  f_stage :: "string option"

record Artifact =
  a_job_id :: int
  artifact_type :: string
  a_name :: string
  uri :: "string option"
  a_plugin_id :: "string option"
  a_stage :: "string option"

text \<open>\<^verbatim>\<open>schemas/trace_event.py\<close>. The field \<open>sequence\<close> has the default 0.\<close>

datatype EventSource =
  laintrace | mnemosyne | umbriel | valkyrie | noema | orchestrator | plugin

datatype EventType =
    hook_enter | hook_exit | hook_replace
  | state_init | state_change | state_snapshot
  | memory_read | memory_write | memory_alloc | memory_free | memory_protect
  | syscall_enter | syscall_exit
  | metric_cpu | metric_memory | metric_io
  | stage_start | stage_complete | stage_error
  | ev_info | ev_warning | ev_error

record TraceEvent =
  te_job_id :: int
  ts :: int
  source :: EventSource
  event_type :: EventType
  payload :: "(string \<times> pyval) list"
  thread_id :: "int option"
  process_id :: "int option"
  address :: "string option"
  symbol :: "string option"
  sequence :: int

text \<open>
  The constructor \<^verbatim>\<open>TraceEvent(job_id=..., source=..., event_type=..., payload=...)\<close>
  as the executor calls it: every other field takes its default, \<open>ts\<close> is the clock
  reading of the moment.
\<close>

definition TraceEvent_new ::
  "int \<Rightarrow> int \<Rightarrow> EventSource \<Rightarrow> EventType \<Rightarrow> (string \<times> pyval) list \<Rightarrow> TraceEvent" where
  "TraceEvent_new now jid src ty pl =
     \<lparr> te_job_id = jid, ts = now, source = src, event_type = ty, payload = pl,
       thread_id = None, process_id = None, address = None, symbol = None,
       sequence = 0 \<rparr>"

text \<open>\<^verbatim>\<open>schemas/plugin_result.py\<close>\<close>

record PluginResult =
  findings :: "Finding list"
  artifacts :: "Artifact list"
  events :: "TraceEvent list"
  success :: bool
  error :: "string option"
  skip_remaining :: bool
  recommendations :: "string list"
  risk_score :: "rat option"
  context_data :: pydict

record JobContext =
  job :: Job
  target_path :: string
  workspace_dir :: string
  artifacts_dir :: string
  previous_findings :: "Finding list"
  previous_artifacts :: "Artifact list"
  pipeline_context :: pydict

subsection \<open>Pipelines (\<^verbatim>\<open>core/pipeline.py\<close>)\<close>

datatype StageCondition =
  always | on_success | on_failure | on_findings | on_high_risk | conditional

record PipelineStage =
  name :: string
  plugin_id :: string
  config :: pydict
  condition :: StageCondition
  condition_expr :: "string option"
  timeout_seconds :: int
  optional :: bool

record Pipeline =
  pl_id :: string
  pl_name :: string
  description :: string
  stages :: "PipelineStage list"
  pl_tags :: "string list"

text \<open>
  \<^verbatim>\<open>risk >= 0.7\<close> on a value read from the context: numbers and booleans compare,
  anything else raises \<^verbatim>\<open>TypeError\<close>.
\<close>

fun ge_0_7 :: "pyval \<Rightarrow> exn + bool" where
  "ge_0_7 (PFloat r) = Inr (r \<ge> 7 / 10)"
| "ge_0_7 (PInt i) = Inr (of_int i \<ge> (7 / 10 :: rat))"
| "ge_0_7 (PBool b) = Inr b"
| "ge_0_7 v = Inl (Exn TypeError ''>= not supported'')"

text \<open>
  \<^verbatim>\<open>PipelineExecutor._should_execute_stage\<close>. The dynamic \<^verbatim>\<open>eval\<close> of a condition
  expression is a parameter \<open>py_eval\<close>: it gives the truth value of the expression over
  the context and the last result, or \<open>None\<close> when the evaluation raises.
\<close>

type_synonym evaluator = "string \<Rightarrow> pydict \<Rightarrow> PluginResult \<Rightarrow> bool option"

definition should_execute_stage ::
  "evaluator \<Rightarrow> PipelineStage \<Rightarrow> PluginResult option \<Rightarrow> pydict \<Rightarrow> exn + bool" where
  "should_execute_stage py_eval stage last_result context =
     (if condition stage = always then Inr True
      else case last_result of
        None \<Rightarrow> Inr (condition stage = always)
      | Some lr \<Rightarrow>
          if condition stage = on_success then Inr (success lr)
          else if condition stage = on_failure then Inr (\<not> success lr)
          else if condition stage = on_findings then Inr (length (findings lr) > 0)
          else if condition stage = on_high_risk then
            ge_0_7 (case context ''_risk_score'' of None \<Rightarrow> PInt 0 | Some v \<Rightarrow> v)
          else if condition stage = conditional then
            (case condition_expr stage of
               None \<Rightarrow> Inr True
             | Some expr \<Rightarrow>
                 if expr = [] then Inr True
                 else (case py_eval expr context lr of
                         None \<Rightarrow> Inr False
                       | Some b \<Rightarrow> Inr b))
          else Inr True)"

subsection \<open>The plugin registry (\<^verbatim>\<open>plugins/base.py\<close>, \<^verbatim>\<open>plugins/registry.py\<close>)\<close>

datatype PluginKind =
  detector | differ | tracer | reconstructor | inferencer | analyzer | reporter

record PluginManifest =
  m_id :: string
  m_name :: string
  version :: string
  kind :: PluginKind
  capabilities :: "string list"
  dependencies :: "string list"

text \<open>
  What an instance of a \<^verbatim>\<open>Plugin\<close> subclass does: \<open>validate\<close> raises or returns
  nothing, \<open>run\<close> raises or returns a result. A plugin class is its constructor, called
  with the manifest and the configuration.
\<close>

record plugin_impl =
  validate :: "JobContext \<Rightarrow> exn option"
  run :: "JobContext \<Rightarrow> exn + PluginResult"

type_synonym plugin_class = "PluginManifest \<Rightarrow> pydict option \<Rightarrow> exn + plugin_impl"

text \<open>
  An instance is an object: \<open>obj_id\<close> is its identity, fresh at each construction.
  \<^verbatim>\<open>Plugin.__init__\<close> stores the manifest and \<^verbatim>\<open>config or {}\<close>.
\<close>

record Plugin =
  obj_id :: nat
  manifest :: PluginManifest
  p_config :: pydict
  impl :: plugin_impl

record PluginRegistry =
  plugins :: "string \<rightharpoonup> plugin_class"
  manifests :: "string \<rightharpoonup> PluginManifest"
  instances :: "string \<rightharpoonup> Plugin"
  next_obj :: nat

text \<open>\<^verbatim>\<open>config or {}\<close>: \<^verbatim>\<open>None\<close> and the empty dictionary both give the empty dictionary.\<close>

definition config_or_empty :: "pydict option \<Rightarrow> pydict" where
  "config_or_empty cfg = (case cfg of None \<Rightarrow> Map.empty | Some c \<Rightarrow> c)"

text \<open>
  \<^verbatim>\<open>str\<close> of an integer, for the f-strings. \<open>digit_char\<close> is only applied to
  numbers below 10.
\<close>

definition digit_char :: "nat \<Rightarrow> char" where
  "digit_char d = ''0123456789'' ! d"

function str_nat :: "nat \<Rightarrow> string" where
  "str_nat n = (if n < 10 then [digit_char n] else str_nat (n div 10) @ [digit_char (n mod 10)])"
  by pat_completeness auto
termination
  by (relation "measure id") auto

declare str_nat.simps [simp del]

definition str_int :: "int \<Rightarrow> string" where
  "str_int i = (if i < 0 then CHR ''-'' # str_nat (nat (- i)) else str_nat (nat i))"

text \<open>
  \<^verbatim>\<open>PluginRegistry.load\<close>. Reading \<^verbatim>\<open>plugin.py\<close> from the plugin's directory and
  finding the \<^verbatim>\<open>Plugin\<close> subclass in it is the parameter \<open>import_module\<close>: the class,
  or the exception of the import.
\<close>

type_synonym importer = "string \<Rightarrow> exn + plugin_class"

definition load ::
  "importer \<Rightarrow> PluginRegistry \<Rightarrow> string \<Rightarrow> (exn + plugin_class) \<times> PluginRegistry" where
  "load import_module reg pname =
     (case plugins reg pname of
        Some cls \<Rightarrow> (Inr cls, reg)
      | None \<Rightarrow>
          (case manifests reg pname of
             None \<Rightarrow> (Inl (Exn KeyError (''Plugin not found: '' @ pname)), reg)
           | Some m \<Rightarrow>
               (case import_module pname of
                  Inl e \<Rightarrow> (Inl e, reg)
                | Inr cls \<Rightarrow> (Inr cls, reg\<lparr>plugins := (plugins reg)(pname \<mapsto> cls)\<rparr>))))"

text \<open>
  \<^verbatim>\<open>PluginRegistry.get_instance\<close>. Python's \<^verbatim>\<open>hash(frozenset(d.items()))\<close> is the
  parameter \<open>py_hash\<close>; it raises \<^verbatim>\<open>TypeError\<close> on an unhashable value.
\<close>

type_synonym hasher = "pydict \<Rightarrow> exn + int"

definition cache_key :: "hasher \<Rightarrow> string \<Rightarrow> pydict option \<Rightarrow> exn + string" where
  "cache_key py_hash pname cfg =
     (case py_hash (config_or_empty cfg) of
        Inl e \<Rightarrow> Inl e
      | Inr h \<Rightarrow> Inr (pname @ '':'' @ str_int h))"

definition get_instance ::
  "hasher \<Rightarrow> importer \<Rightarrow> PluginRegistry \<Rightarrow> string \<Rightarrow> pydict option
     \<Rightarrow> (exn + Plugin) \<times> PluginRegistry" where
  "get_instance py_hash import_module reg pname cfg =
     (case cache_key py_hash pname cfg of
        Inl e \<Rightarrow> (Inl e, reg)
      | Inr key \<Rightarrow>
          (case instances reg key of
             Some p \<Rightarrow> (Inr p, reg)
           | None \<Rightarrow>
               (case load import_module reg pname of
                  (Inl e, reg1) \<Rightarrow> (Inl e, reg1)
                | (Inr plugin_class, reg1) \<Rightarrow>
                    (case manifests reg1 pname of
                       None \<Rightarrow> (Inl (Exn KeyError pname), reg1)
                     | Some m \<Rightarrow>
                         (case plugin_class m cfg of
                            Inl e \<Rightarrow> (Inl e, reg1)
                          | Inr im \<Rightarrow>
                              (let p = \<lparr> obj_id = next_obj reg1, manifest = m,
                                         p_config = config_or_empty cfg, impl = im \<rparr>
                               in (Inr p, reg1\<lparr> instances := (instances reg1)(key \<mapsto> p),
                                                next_obj := Suc (next_obj reg1) \<rparr>)))))))"

subsection \<open>The pipeline executor (\<^verbatim>\<open>PipelineExecutor\<close> in \<^verbatim>\<open>core/pipeline.py\<close>)\<close>

text \<open>
  What the code takes from outside: the catalogue \<^verbatim>\<open>PIPELINES\<close>, Python's hash, the
  module import, the evaluation of condition expressions, and the clocks. \<open>utc_now k\<close> is
  the reading of \<^verbatim>\<open>datetime.now\<close> taken for the event that the executor puts at
  position \<open>k\<close> of its event list; \<open>elapsed_ms\<close> is the measured run time.
\<close>

record env =
  PIPELINES :: "string \<rightharpoonup> Pipeline"
  py_hash :: hasher
  import_module :: importer
  py_eval :: evaluator
  utc_now :: "nat \<Rightarrow> int"
  elapsed_ms :: int

record PipelineExecutionResult =
  res_job_id :: int
  res_pipeline_id :: string
  res_success :: bool
  stages_executed :: "string list"
  stages_skipped :: "string list"
  stages_failed :: "string list"
  total_findings :: "Finding list"
  total_artifacts :: "Artifact list"
  total_events :: "TraceEvent list"
  res_execution_time_ms :: int
  res_error :: "string option"
  res_risk_score :: rat

text \<open>The optional callback \<^verbatim>\<open>on_stage_complete\<close>; it may raise.\<close>

record PipelineExecutor =
  on_stage_complete :: "(string \<Rightarrow> PluginResult \<Rightarrow> exn option) option"

text \<open>The local variables of \<^verbatim>\<open>execute\<close>, and the global registry it works on.\<close>

record exec_state =
  all_findings :: "Finding list"
  all_artifacts :: "Artifact list"
  all_events :: "TraceEvent list"
  executed :: "string list"
  skipped :: "string list"
  failed_stages :: "string list"
  running_context :: pydict
  last_result :: "PluginResult option"
  max_risk :: rat
  registry :: PluginRegistry

text \<open>The context built for a stage.\<close>

definition stage_context :: "Job \<Rightarrow> JobContext \<Rightarrow> exec_state \<Rightarrow> JobContext" where
  "stage_context jb base_ctx s =
     \<lparr> job = jb,
       target_path = target_path base_ctx,
       workspace_dir = workspace_dir base_ctx,
       artifacts_dir = artifacts_dir base_ctx,
       previous_findings = all_findings s,
       previous_artifacts = all_artifacts s,
       pipeline_context = running_context s \<rparr>"

text \<open>Stamping the findings and artifacts of a result with the stage.\<close>

definition annotate :: "PipelineStage \<Rightarrow> PluginResult \<Rightarrow> PluginResult" where
  "annotate stage result =
     result\<lparr> findings :=
               map (\<lambda>f. f\<lparr>f_plugin_id := Some (plugin_id stage), f_stage := Some (name stage)\<rparr>)
                 (findings result),
             artifacts :=
               map (\<lambda>a. a\<lparr>a_plugin_id := Some (plugin_id stage), a_stage := Some (name stage)\<rparr>)
                 (artifacts result) \<rparr>"

definition stage_complete_event :: "env \<Rightarrow> Job \<Rightarrow> PipelineStage \<Rightarrow> PluginResult \<Rightarrow> nat \<Rightarrow> TraceEvent" where
  "stage_complete_event E jb stage result k =
     TraceEvent_new (utc_now E k) (job_id jb) orchestrator stage_complete
       [(''stage'', PStr (name stage)), (''plugin'', PStr (plugin_id stage)),
        (''findings'', PInt (int (length (findings result)))),
        (''artifacts'', PInt (int (length (artifacts result))))]"

definition stage_error_event :: "env \<Rightarrow> Job \<Rightarrow> PipelineStage \<Rightarrow> exn \<Rightarrow> nat \<Rightarrow> TraceEvent" where
  "stage_error_event E jb stage e k =
     TraceEvent_new (utc_now E k) (job_id jb) orchestrator stage_error
       [(''stage'', PStr (name stage)), (''error'', PStr (str_exn e))]"

text \<open>
  The part of the \<^verbatim>\<open>try\<close> block after \<^verbatim>\<open>plugin.run\<close> has returned: aggregation,
  the context update, the risk score, the completion event and the callback. The value is
  the exception of the callback, or \<^verbatim>\<open>result.skip_remaining\<close>.
\<close>

definition aggregate ::
  "env \<Rightarrow> PipelineExecutor \<Rightarrow> Job \<Rightarrow> PipelineStage \<Rightarrow> PluginResult \<Rightarrow> exec_state
     \<Rightarrow> (exn + bool) \<times> exec_state" where
  "aggregate E ex jb stage result0 s =
     (let result = annotate stage result0;
          ctx1 = running_context s ++ context_data result;
          truthy = (case risk_score result of None \<Rightarrow> False | Some r \<Rightarrow> r \<noteq> 0);
          mr = (if truthy then max (max_risk s) (the (risk_score result)) else max_risk s);
          ctx2 = (if truthy then ctx1(''_risk_score'' \<mapsto> PFloat mr) else ctx1);
          evs = all_events s @ events result;
          s' = s\<lparr> all_findings := all_findings s @ findings result,
                  all_artifacts := all_artifacts s @ artifacts result,
                  all_events := evs @ [stage_complete_event E jb stage result (length evs)],
                  executed := executed s @ [name stage],
                  running_context := ctx2,
                  last_result := Some result,
                  max_risk := mr \<rparr>
      in case on_stage_complete ex of
           None \<Rightarrow> (Inr (skip_remaining result), s')
         | Some callback \<Rightarrow>
             (case callback (name stage) result of
                Some e \<Rightarrow> (Inl e, s')
              | None \<Rightarrow> (Inr (skip_remaining result), s')))"

text \<open>The whole \<^verbatim>\<open>try\<close> block of one loop iteration.\<close>

definition try_stage ::
  "env \<Rightarrow> PipelineExecutor \<Rightarrow> Job \<Rightarrow> JobContext \<Rightarrow> PipelineStage \<Rightarrow> exec_state
     \<Rightarrow> (exn + bool) \<times> exec_state" where
  "try_stage E ex jb base_ctx stage s =
     (case get_instance (py_hash E) (import_module E) (registry s) (plugin_id stage)
             (Some (config stage)) of
        (Inl e, reg1) \<Rightarrow> (Inl e, s\<lparr>registry := reg1\<rparr>)
      | (Inr plg, reg1) \<Rightarrow>
          (let s1 = s\<lparr>registry := reg1\<rparr>;
               ctx = stage_context jb base_ctx s
           in case validate (impl plg) ctx of
                Some e \<Rightarrow> (Inl e, s1)
              | None \<Rightarrow>
                  (case run (impl plg) ctx of
                     Inl e \<Rightarrow> (Inl e, s1)
                   | Inr result \<Rightarrow> aggregate E ex jb stage result s1)))"

text \<open>
  One iteration of the loop over the stages: how the loop goes on, and the new state. An
  exception of the condition check is outside the \<^verbatim>\<open>try\<close> and leaves \<^verbatim>\<open>execute\<close>.
\<close>

datatype flow = Continue | Break | Return string

definition stage_iteration ::
  "env \<Rightarrow> PipelineExecutor \<Rightarrow> Job \<Rightarrow> JobContext \<Rightarrow> PipelineStage \<Rightarrow> exec_state
     \<Rightarrow> (exn + flow) \<times> exec_state" where
  "stage_iteration E ex jb base_ctx stage s =
     (case should_execute_stage (py_eval E) stage (last_result s) (running_context s) of
        Inl e \<Rightarrow> (Inl e, s)
      | Inr go \<Rightarrow>
          if \<not> go then (Inr Continue, s\<lparr>skipped := skipped s @ [name stage]\<rparr>)
          else
            (case try_stage E ex jb base_ctx stage s of
               (Inr skip, s1) \<Rightarrow> (Inr (if skip then Break else Continue), s1)
             | (Inl e, s1) \<Rightarrow>
                 (let s2 = s1\<lparr> failed_stages := failed_stages s1 @ [name stage],
                               all_events := all_events s1
                                 @ [stage_error_event E jb stage e (length (all_events s1))] \<rparr>
                  in if \<not> optional stage
                     then (Inr (Return (''Stage '' @ name stage @ '' failed: '' @ str_exn e)), s2)
                     else (Inr Continue, s2))))"

text \<open>
  The loop: \<open>None\<close> when it ends or breaks, the error message when a stage that is not
  optional has failed.
\<close>

fun run_stages ::
  "env \<Rightarrow> PipelineExecutor \<Rightarrow> Job \<Rightarrow> JobContext \<Rightarrow> PipelineStage list \<Rightarrow> exec_state
     \<Rightarrow> (exn + string option) \<times> exec_state" where
  "run_stages E ex jb base_ctx [] s = (Inr None, s)"
| "run_stages E ex jb base_ctx (stage # rest) s =
     (case stage_iteration E ex jb base_ctx stage s of
        (Inl e, s') \<Rightarrow> (Inl e, s')
      | (Inr Continue, s') \<Rightarrow> run_stages E ex jb base_ctx rest s'
      | (Inr Break, s') \<Rightarrow> (Inr None, s')
      | (Inr (Return msg), s') \<Rightarrow> (Inr (Some msg), s'))"

definition initial_state :: "env \<Rightarrow> Job \<Rightarrow> string \<Rightarrow> Pipeline \<Rightarrow> PluginRegistry \<Rightarrow> exec_state" where
  "initial_state E jb pipeline_id pipeline reg =
     \<lparr> all_findings = [], all_artifacts = [],
       all_events =
         [TraceEvent_new (utc_now E 0) (job_id jb) orchestrator stage_start
            [(''pipeline'', PStr pipeline_id),
             (''stages'', PList (map (\<lambda>st. PStr (name st)) (stages pipeline)))]],
       executed = [], skipped = [], failed_stages = [],
       running_context = Map.empty, last_result = None, max_risk = 0,
       registry = reg \<rparr>"

definition make_result ::
  "env \<Rightarrow> Job \<Rightarrow> string \<Rightarrow> exec_state \<Rightarrow> bool \<Rightarrow> string option \<Rightarrow> PipelineExecutionResult" where
  "make_result E jb pipeline_id s ok err =
     \<lparr> res_job_id = job_id jb, res_pipeline_id = pipeline_id, res_success = ok,
       stages_executed = executed s, stages_skipped = skipped s,
       stages_failed = failed_stages s,
       total_findings = all_findings s, total_artifacts = all_artifacts s,
       total_events = all_events s,
       res_execution_time_ms = elapsed_ms E, res_error = err,
       res_risk_score = max_risk s \<rparr>"

text \<open>\<^verbatim>\<open>PipelineExecutor.execute\<close>, with the registry before and after.\<close>

definition execute ::
  "env \<Rightarrow> PipelineExecutor \<Rightarrow> PluginRegistry \<Rightarrow> Job \<Rightarrow> string \<Rightarrow> JobContext
     \<Rightarrow> (exn + PipelineExecutionResult) \<times> PluginRegistry" where
  "execute E ex reg jb pipeline_id base_ctx =
     (case PIPELINES E pipeline_id of
        None \<Rightarrow> (Inl (Exn ValueError (''Unknown pipeline: '' @ pipeline_id)), reg)
      | Some pipeline \<Rightarrow>
          (case run_stages E ex jb base_ctx (stages pipeline)
                  (initial_state E jb pipeline_id pipeline reg) of
             (Inl e, s) \<Rightarrow> (Inl e, registry s)
           | (Inr (Some msg), s) \<Rightarrow>
               (Inr (make_result E jb pipeline_id s False (Some msg)), registry s)
           | (Inr None, s) \<Rightarrow>
               (Inr (make_result E jb pipeline_id s (length (failed_stages s) = 0) None),
                registry s)))"

subsection \<open>The orchestrator (\<^verbatim>\<open>core/orchestrator.py\<close>)\<close>

text \<open>
  The persistence callbacks act on a store \<open>'st\<close> outside the orchestrator; each may
  raise. \<open>active_jobs\<close> is \<^verbatim>\<open>_active_jobs\<close>.
\<close>

type_synonym UUID = int

record 'st Orchestrator =
  active_jobs :: "UUID \<rightharpoonup> Job"
  persist_finding :: "(Finding \<Rightarrow> 'st \<Rightarrow> exn + 'st) option"
  persist_artifact :: "(Artifact \<Rightarrow> 'st \<Rightarrow> exn + 'st) option"
  persist_event :: "(TraceEvent \<Rightarrow> 'st \<Rightarrow> exn + 'st) option"
  update_job :: "(Job \<Rightarrow> 'st \<Rightarrow> exn + 'st) option"

text \<open>
  \<^verbatim>\<open>Orchestrator.cancel\<close>. The job object is changed in place, so an exception of the
  callback leaves it cancelled.
\<close>

definition cancel ::
  "'st Orchestrator \<Rightarrow> 'st \<Rightarrow> UUID \<Rightarrow> (exn + bool) \<times> 'st Orchestrator \<times> 'st" where
  "cancel orch st jid =
     (case active_jobs orch jid of
        None \<Rightarrow> (Inr False, orch, st)
      | Some jb \<Rightarrow>
          if status jb = running then
            (let jb' = jb\<lparr>status := cancelled\<rparr>;
                 orch' = orch\<lparr>active_jobs := (active_jobs orch)(jid \<mapsto> jb')\<rparr>
             in case update_job orch of
                  None \<Rightarrow> (Inr True, orch', st)
                | Some callback \<Rightarrow>
                    (case callback jb' st of
                       Inl e \<Rightarrow> (Inl e, orch', st)
                     | Inr st' \<Rightarrow> (Inr True, orch', st')))
          else (Inr False, orch, st))"

text \<open>
  One loop of \<^verbatim>\<open>Orchestrator._persist_results\<close>: each row in its own \<^verbatim>\<open>try\<close>, a
  failure is logged and the loop goes on. The state is the store and the log.
\<close>

fun persist_rows ::
  "string \<Rightarrow> ('a \<Rightarrow> 'st \<Rightarrow> exn + 'st) \<Rightarrow> 'a list \<Rightarrow> 'st \<times> string list \<Rightarrow> 'st \<times> string list" where
  "persist_rows what callback [] (st, lg) = (st, lg)"
| "persist_rows what callback (x # xs) (st, lg) =
     (case callback x st of
        Inl e \<Rightarrow>
          persist_rows what callback xs
            (st, lg @ [''Failed to persist '' @ what @ '': '' @ str_exn e])
      | Inr st' \<Rightarrow> persist_rows what callback xs (st', lg))"

definition persist_results ::
  "'st Orchestrator \<Rightarrow> PipelineExecutionResult \<Rightarrow> 'st \<times> string list \<Rightarrow> 'st \<times> string list" where
  "persist_results orch result sl =
     (let sl1 = (case persist_finding orch of
                   None \<Rightarrow> sl
                 | Some cb \<Rightarrow> persist_rows ''finding'' cb (total_findings result) sl);
          sl2 = (case persist_artifact orch of
                   None \<Rightarrow> sl1
                 | Some cb \<Rightarrow> persist_rows ''artifact'' cb (total_artifacts result) sl1)
      in case persist_event orch of
           None \<Rightarrow> sl2
         | Some cb \<Rightarrow> persist_rows ''event'' cb (total_events result) sl2)"

subsection \<open>The store (\<^verbatim>\<open>core/models.py\<close>, \<^verbatim>\<open>core/repository.py\<close>)\<close>

text \<open>The status enumeration of the store has four values.\<close>

datatype models_JobStatus = st_pending | st_running | st_completed | st_failed

record db_Job =
  dj_id :: int
  dj_target :: string
  dj_status :: models_JobStatus
  dj_result :: "pyval option"
  dj_pipeline_id :: "string option"
  dj_progress :: int

text \<open>
  The session of SQLAlchemy over the tables. A commit that the database rejects raises
  and leaves the transaction of the session inactive until \<^verbatim>\<open>rollback\<close> is called;
  no source file calls \<^verbatim>\<open>rollback\<close>, so from then on every query and every commit
  on the session raises. \<open>inactive\<close> is that state. The row that was rejected is not in
  the table.
\<close>

record Session =
  jobs :: "int \<rightharpoonup> db_Job"
  findings_table :: "Finding list"
  artifacts_table :: "Artifact list"
  trace_events_table :: "TraceEvent list"
  events_table :: "(string \<times> pyval \<times> int option) list"
  inactive :: bool

definition PendingRollbackError :: exn where
  "PendingRollbackError = Exn SQLAlchemyError ''PendingRollbackError''"

text \<open>\<^verbatim>\<open>SessionLocal()\<close> and \<^verbatim>\<open>db.close()\<close>: a session begins and ends active.\<close>

definition fresh_session :: "Session \<Rightarrow> Session" where
  "fresh_session d = d\<lparr>inactive := False\<rparr>"

text \<open>
  The worker's surroundings: the executor's, the licence check, pydantic's
  \<^verbatim>\<open>model_validate\<close>, the creation of the directories, the clock, and the verdict of the
  database on the commit of a row (\<open>None\<close> when the commit goes through): of a job row
  as updated, of a generic event, of a finding, an artifact and a trace event.
\<close>

record worker_env =
  exec_env :: env
  enforce_or_fail_worker :: "exn option"
  model_validate :: "db_Job \<Rightarrow> exn + Job"
  make_dirs :: "int \<Rightarrow> exn + string \<times> string"
  time_now :: rat
  store_job :: "db_Job \<Rightarrow> exn option"
  store_event :: "string \<times> pyval \<times> int option \<Rightarrow> exn option"
  store_finding :: "Finding \<Rightarrow> exn option"
  store_artifact :: "Artifact \<Rightarrow> exn option"
  store_trace_event :: "TraceEvent \<Rightarrow> exn option"

text \<open>\<^verbatim>\<open>db.query(Job).filter(Job.id == job_id).first()\<close>\<close>

definition query_job :: "Session \<Rightarrow> int \<Rightarrow> exn + db_Job option" where
  "query_job db jid = (if inactive db then Inl PendingRollbackError else Inr (jobs db jid))"

text \<open>
  \<^verbatim>\<open>db.add(row); db.commit(); db.refresh(row)\<close> with the verdict of the database:
  the exception and the session left inactive, or the session \<open>db'\<close> with the row in it.
\<close>

definition commit :: "exn option \<Rightarrow> Session \<Rightarrow> Session \<Rightarrow> exn option \<times> Session" where
  "commit verdict db db' =
     (if inactive db then (Some PendingRollbackError, db)
      else case verdict of
             Some e \<Rightarrow> (Some e, db\<lparr>inactive := True\<rparr>)
           | None \<Rightarrow> (None, db'))"

definition update_job_status ::
  "worker_env \<Rightarrow> Session \<Rightarrow> int \<Rightarrow> models_JobStatus \<Rightarrow> pyval option
     \<Rightarrow> (exn + db_Job option) \<times> Session" where
  "update_job_status W db jid st result =
     (case query_job db jid of
        Inl e \<Rightarrow> (Inl e, db)
      | Inr None \<Rightarrow> (Inr None, db)
      | Inr (Some j) \<Rightarrow>
          (let j' = j\<lparr> dj_status := st,
                       dj_result := (case result of None \<Rightarrow> dj_result j | Some r \<Rightarrow> Some r) \<rparr>
           in case commit (store_job W j') db (db\<lparr>jobs := (jobs db)(jid \<mapsto> j')\<rparr>) of
                (Some e, db') \<Rightarrow> (Inl e, db')
              | (None, db') \<Rightarrow> (Inr (Some j'), db')))"

definition create_event ::
  "worker_env \<Rightarrow> Session \<Rightarrow> string \<Rightarrow> pyval \<Rightarrow> int option \<Rightarrow> exn option \<times> Session" where
  "create_event W db ety pl jid =
     commit (store_event W (ety, pl, jid)) db
       (db\<lparr>events_table := events_table db @ [(ety, pl, jid)]\<rparr>)"

definition create_finding :: "worker_env \<Rightarrow> Session \<Rightarrow> Finding \<Rightarrow> exn option \<times> Session" where
  "create_finding W db finding_data =
     commit (store_finding W finding_data) db
       (db\<lparr>findings_table := findings_table db @ [finding_data]\<rparr>)"

definition create_artifact :: "worker_env \<Rightarrow> Session \<Rightarrow> Artifact \<Rightarrow> exn option \<times> Session" where
  "create_artifact W db artifact_data =
     commit (store_artifact W artifact_data) db
       (db\<lparr>artifacts_table := artifacts_table db @ [artifact_data]\<rparr>)"

text \<open>The row of a trace event has no column for \<open>process_id\<close>.\<close>

definition create_trace_event ::
  "worker_env \<Rightarrow> Session \<Rightarrow> TraceEvent \<Rightarrow> exn option \<times> Session" where
  "create_trace_event W db event_data =
     commit (store_trace_event W event_data) db
       (db\<lparr>trace_events_table :=
             trace_events_table db @ [event_data\<lparr>process_id := None\<rparr>]\<rparr>)"

subsection \<open>The worker (\<^verbatim>\<open>core/tasks.py\<close>)\<close>

text \<open>
  A \<^verbatim>\<open>for\<close> loop of \<^verbatim>\<open>process_job\<close> over rows to persist: no \<^verbatim>\<open>try\<close> inside, so the
  first exception ends the loop; the rows before it are committed.
\<close>

fun create_each ::
  "(Session \<Rightarrow> 'a \<Rightarrow> exn option \<times> Session) \<Rightarrow> 'a list \<Rightarrow> Session \<Rightarrow> exn option \<times> Session" where
  "create_each create [] db = (None, db)"
| "create_each create (x # xs) db =
     (case create db x of
        (Some e, db') \<Rightarrow> (Some e, db')
      | (None, db') \<Rightarrow> create_each create xs db')"

record world =
  db :: Session
  reg :: PluginRegistry

definition final_result_of :: "string \<Rightarrow> PipelineExecutionResult \<Rightarrow> (string \<times> pyval) list" where
  "final_result_of pipeline_id result =
     [(''pipeline_id'', PStr pipeline_id),
      (''stages_executed'', PList (map PStr (stages_executed result))),
      (''stages_failed'', PList (map PStr (stages_failed result))),
      (''risk_score'', PFloat (res_risk_score result)),
      (''execution_time_ms'', PInt (res_execution_time_ms result)),
      (''findings_count'', PInt (int (length (total_findings result)))),
      (''artifacts_count'', PInt (int (length (total_artifacts result))))]
     @ (case res_error result of
          None \<Rightarrow> []
        | Some msg \<Rightarrow> if msg = [] then [] else [(''error'', PStr msg)])"

text \<open>\<^verbatim>\<open>JobStatus.completed if result.success else JobStatus.failed\<close>\<close>

definition final_status :: "PipelineExecutionResult \<Rightarrow> models_JobStatus" where
  "final_status result = (if res_success result then st_completed else st_failed)"

text \<open>The three loops and the final update, after the executor has returned.\<close>

definition persist_and_finish ::
  "worker_env \<Rightarrow> world \<Rightarrow> int \<Rightarrow> string \<Rightarrow> PipelineExecutionResult
     \<Rightarrow> (exn + (string \<times> pyval) list) \<times> world" where
  "persist_and_finish W w jid pipeline_id result =
     (case create_each (create_finding W) (total_findings result) (db w) of
        (Some e, db1) \<Rightarrow> (Inl e, w\<lparr>db := db1\<rparr>)
      | (None, db1) \<Rightarrow>
          (case create_each (create_artifact W) (total_artifacts result) db1 of
             (Some e, db2) \<Rightarrow> (Inl e, w\<lparr>db := db2\<rparr>)
           | (None, db2) \<Rightarrow>
               (case create_each (create_trace_event W) (total_events result) db2 of
                  (Some e, db3) \<Rightarrow> (Inl e, w\<lparr>db := db3\<rparr>)
                | (None, db3) \<Rightarrow>
                    (let final_result = final_result_of pipeline_id result
                     in case update_job_status W db3 jid (final_status result)
                               (Some (PDict final_result)) of
                          (Inl e, db4) \<Rightarrow> (Inl e, w\<lparr>db := db4\<rparr>)
                        | (Inr j, db4) \<Rightarrow> (Inr final_result, w\<lparr>db := db4\<rparr>)))))"

text \<open>\<^verbatim>\<open>db_job.pipeline_id or "quicklook"\<close>, and the base context of the worker.\<close>

definition pipeline_id_or_default :: "db_Job \<Rightarrow> string" where
  "pipeline_id_or_default j =
     (case dj_pipeline_id j of
        None \<Rightarrow> ''quicklook''
      | Some p \<Rightarrow> if p = [] then ''quicklook'' else p)"

definition worker_context :: "Job \<Rightarrow> string \<Rightarrow> string \<Rightarrow> string \<Rightarrow> JobContext" where
  "worker_context job_schema tgt wdir adir =
     \<lparr> job = job_schema, target_path = tgt, workspace_dir = wdir, artifacts_dir = adir,
       previous_findings = [], previous_artifacts = [], pipeline_context = Map.empty \<rparr>"

text \<open>
  The \<^verbatim>\<open>try\<close> block of \<^verbatim>\<open>process_job\<close>. The job row read at the start is the object
  that \<^verbatim>\<open>update_job_status\<close> changes, so it is \<^verbatim>\<open>running\<close> when it is validated.
\<close>

definition process_job_try ::
  "worker_env \<Rightarrow> world \<Rightarrow> int \<Rightarrow> string \<Rightarrow> (exn + (string \<times> pyval) list) \<times> world" where
  "process_job_try W w jid tgt =
     (case query_job (db w) jid of
        Inl e \<Rightarrow> (Inl e, w)
      | Inr None \<Rightarrow> (Inl (Exn ValueError (''Job '' @ str_int jid @ '' not found'')), w)
      | Inr (Some db_job0) \<Rightarrow>
          (let pipeline_id = pipeline_id_or_default db_job0
           in case update_job_status W (db w) jid st_running None of
                (Inl e, db1) \<Rightarrow> (Inl e, w\<lparr>db := db1\<rparr>)
              | (Inr j, db1) \<Rightarrow>
                  (let w1 = w\<lparr>db := db1\<rparr>;
                       db_job = db_job0\<lparr>dj_status := st_running\<rparr>
                   in case model_validate W db_job of
                        Inl e \<Rightarrow> (Inl e, w1)
                      | Inr job_schema \<Rightarrow>
                          (case make_dirs W jid of
                             Inl e \<Rightarrow> (Inl e, w1)
                           | Inr (wdir, adir) \<Rightarrow>
                               (case execute (exec_env W) \<lparr>on_stage_complete = None\<rparr> (reg w1)
                                       job_schema pipeline_id
                                       (worker_context job_schema tgt wdir adir) of
                                  (Inl e, reg') \<Rightarrow> (Inl e, w1\<lparr>reg := reg'\<rparr>)
                                | (Inr result, reg') \<Rightarrow>
                                    persist_and_finish W (w1\<lparr>reg := reg'\<rparr>) jid pipeline_id
                                      result)))))"

text \<open>
  The handler of \<^verbatim>\<open>process_job\<close>: it marks the job failed, records a \<^verbatim>\<open>job_failed\<close>
  event and raises the exception again. It works on the same session, so each of its two
  writes can raise in its turn, and then that exception is the one that leaves.
\<close>

definition handle_failure ::
  "worker_env \<Rightarrow> world \<Rightarrow> int \<Rightarrow> exn \<Rightarrow> exn \<times> world" where
  "handle_failure W w jid exc =
     (let fail_payload =
            PDict [(''error'', PStr (str_exn exc)), (''ts'', PFloat (time_now W))]
      in case update_job_status W (db w) jid st_failed (Some fail_payload) of
           (Inl e, db1) \<Rightarrow> (e, w\<lparr>db := db1\<rparr>)
         | (Inr j, db1) \<Rightarrow>
             (case create_event W db1 ''job_failed'' fail_payload (Some jid) of
                (Some e, db2) \<Rightarrow> (e, w\<lparr>db := db2\<rparr>)
              | (None, db2) \<Rightarrow> (exc, w\<lparr>db := db2\<rparr>)))"

text \<open>
  \<^verbatim>\<open>process_job\<close>: the licence check, a new session, the \<^verbatim>\<open>try\<close> block, the handler,
  and the \<^verbatim>\<open>finally\<close> that closes the session.
\<close>

definition process_job ::
  "worker_env \<Rightarrow> world \<Rightarrow> int \<Rightarrow> string \<Rightarrow> (exn + (string \<times> pyval) list) \<times> world" where
  "process_job W w jid tgt =
     (case enforce_or_fail_worker W of
        Some e \<Rightarrow> (Inl e, w)
      | None \<Rightarrow>
          (case process_job_try W (w\<lparr>db := fresh_session (db w)\<rparr>) jid tgt of
             (Inr final_result, w') \<Rightarrow> (Inr final_result, w'\<lparr>db := fresh_session (db w')\<rparr>)
           | (Inl exc, w') \<Rightarrow>
               (case handle_failure W w' jid exc of
                  (e, w'') \<Rightarrow> (Inl e, w''\<lparr>db := fresh_session (db w'')\<rparr>))))"

subsection \<open>Concrete plugins, pipelines and jobs\<close>

text \<open>
  Small inputs on which the definitions are run: plugins that return a fixed result or
  raise, a registry that holds them, and pipelines over them.
\<close>

definition PluginResult_default :: PluginResult where
  "PluginResult_default =
     \<lparr> findings = [], artifacts = [], events = [], success = True, error = None,
       skip_remaining = False, recommendations = [], risk_score = None,
       context_data = Map.empty \<rparr>"

definition returning :: "PluginResult \<Rightarrow> plugin_class" where
  "returning r m cfg = Inr \<lparr> validate = (\<lambda>ctx. None), run = (\<lambda>ctx. Inr r) \<rparr>"

definition raising :: "string \<Rightarrow> plugin_class" where
  "raising msg m cfg =
     Inr \<lparr> validate = (\<lambda>ctx. None), run = (\<lambda>ctx. Inl (Exn RuntimeError msg)) \<rparr>"

definition manifest_of :: "string \<Rightarrow> PluginManifest" where
  "manifest_of pname =
     \<lparr> m_id = pname, m_name = pname, version = ''1.0.0'', kind = analyzer,
       capabilities = [''test.run''], dependencies = [] \<rparr>"

definition soft_failure :: PluginResult where
  "soft_failure = PluginResult_default\<lparr>success := False, error := Some ''analysis failed''\<rparr>"

definition risky :: PluginResult where
  "risky = PluginResult_default\<lparr>risk_score := Some (8 / 10)\<rparr>"

definition clobber :: PluginResult where
  "clobber = PluginResult_default\<lparr>context_data := [''_risk_score'' \<mapsto> PFloat (1 / 10)]\<rparr>"

definition finding1 :: Finding where
  "finding1 = \<lparr> f_job_id = 1, severity = high, category = ''anti-debug'',
                 title = ''first'', confidence = 1 / 2, f_plugin_id = None, f_stage = None \<rparr>"

definition finding2 :: Finding where
  "finding2 = finding1\<lparr>title := ''second''\<rparr>"

definition artifact1 :: Artifact where
  "artifact1 = \<lparr> a_job_id = 1, artifact_type = ''json'', a_name = ''report.json'',
                  uri = Some ''file:///tmp/report.json'', a_plugin_id = None, a_stage = None \<rparr>"

definition productive :: PluginResult where
  "productive = PluginResult_default\<lparr>findings := [finding1, finding2], artifacts := [artifact1]\<rparr>"

definition hook_event :: "int \<Rightarrow> TraceEvent" where
  "hook_event n = (TraceEvent_new 1000 1 laintrace hook_enter [])\<lparr>sequence := n\<rparr>"

definition tracing :: PluginResult where
  "tracing = PluginResult_default\<lparr>events := [hook_event 0, hook_event 1]\<rparr>"

definition test_registry :: PluginRegistry where
  "test_registry =
     \<lparr> plugins = [''ok'' \<mapsto> returning PluginResult_default,
                  ''soft'' \<mapsto> returning soft_failure,
                  ''boom'' \<mapsto> raising ''crash'',
                  ''risky'' \<mapsto> returning risky,
                  ''clobber'' \<mapsto> returning clobber,
                  ''productive'' \<mapsto> returning productive,
                  ''tracer'' \<mapsto> returning tracing],
       manifests = [''ok'' \<mapsto> manifest_of ''ok'',
                    ''soft'' \<mapsto> manifest_of ''soft'',
                    ''boom'' \<mapsto> manifest_of ''boom'',
                    ''risky'' \<mapsto> manifest_of ''risky'',
                    ''clobber'' \<mapsto> manifest_of ''clobber'',
                    ''productive'' \<mapsto> manifest_of ''productive'',
                    ''tracer'' \<mapsto> manifest_of ''tracer''],
       instances = Map.empty,
       next_obj = 0 \<rparr>"

definition stage_of :: "string \<Rightarrow> string \<Rightarrow> StageCondition \<Rightarrow> bool \<Rightarrow> PipelineStage" where
  "stage_of nm pname cond opt =
     \<lparr> name = nm, plugin_id = pname, config = Map.empty, condition = cond,
       condition_expr = None, timeout_seconds = 300, optional = opt \<rparr>"

definition pipeline_of :: "string \<Rightarrow> PipelineStage list \<Rightarrow> Pipeline" where
  "pipeline_of pname sts =
     \<lparr> pl_id = pname, pl_name = pname, description = [], stages = sts, pl_tags = [] \<rparr>"

definition test_pipelines :: "string \<rightharpoonup> Pipeline" where
  "test_pipelines =
     [''soft'' \<mapsto> pipeline_of ''soft'' [stage_of ''gate'' ''soft'' always False],
      ''opt'' \<mapsto> pipeline_of ''opt''
         [stage_of ''A'' ''ok'' always False,
          stage_of ''B'' ''boom'' always True,
          stage_of ''C'' ''ok'' always False],
      ''risk'' \<mapsto> pipeline_of ''risk''
         [stage_of ''first'' ''risky'' always False,
          stage_of ''second'' ''clobber'' always False],
      ''one'' \<mapsto> pipeline_of ''one'' [stage_of ''gate'' ''ok'' always False],
      ''produce'' \<mapsto> pipeline_of ''produce'' [stage_of ''gate'' ''productive'' always False],
      ''trace'' \<mapsto> pipeline_of ''trace'' [stage_of ''trace'' ''tracer'' always False],
      ''eager'' \<mapsto> pipeline_of ''eager'' [stage_of ''gate'' ''ok'' on_success False]]"

definition no_eval :: evaluator where
  "no_eval expr ctx r = None"

definition hash_zero :: hasher where
  "hash_zero d = Inr 0"

definition no_import :: importer where
  "no_import pname = Inl (Exn ImportError (''No plugin.py found for '' @ pname))"

definition coarse_clock :: "nat \<Rightarrow> int" where
  "coarse_clock k = 1000"

definition test_env :: env where
  "test_env =
     \<lparr> PIPELINES = test_pipelines, py_hash = hash_zero, import_module = no_import,
       py_eval = no_eval, utc_now = coarse_clock, elapsed_ms = 5 \<rparr>"

definition test_job :: Job where
  "test_job =
     \<lparr> job_id = 1, target = ''/samples/clean.bin'', target_type = binary, status = running,
       job_pipeline_id = ''one'', current_stage = None, options = Map.empty, tags = [],
       created_by = ''anonymous'', job_error = None \<rparr>"

definition test_ctx :: JobContext where
  "test_ctx =
     \<lparr> job = test_job, target_path = ''/samples/clean.bin'', workspace_dir = ''/tmp/ws'',
       artifacts_dir = ''/tmp/art'', previous_findings = [], previous_artifacts = [],
       pipeline_context = Map.empty \<rparr>"

definition plain_executor :: PipelineExecutor where
  "plain_executor = \<lparr> on_stage_complete = None \<rparr>"

text \<open>What a run returned, without the registry: the flag, the three lists and the error.\<close>

definition outcome ::
  "(exn + PipelineExecutionResult) \<times> PluginRegistry
     \<Rightarrow> (bool \<times> string list \<times> string list \<times> string list \<times> string option) option" where
  "outcome x =
     (case fst x of
        Inl e \<Rightarrow> None
      | Inr r \<Rightarrow>
          Some (res_success r, stages_executed r, stages_skipped r, stages_failed r,
                res_error r))"

text \<open>The pairs (\<open>ts\<close>, \<open>sequence\<close>) of the events of a run, in the order recorded.\<close>

definition events_of :: "(exn + PipelineExecutionResult) \<times> PluginRegistry \<Rightarrow> TraceEvent list" where
  "events_of x = (case fst x of Inl e \<Rightarrow> [] | Inr r \<Rightarrow> total_events r)"

definition event_keys :: "(exn + PipelineExecutionResult) \<times> PluginRegistry \<Rightarrow> (int \<times> int) list" where
  "event_keys x = map (\<lambda>e. (ts e, sequence e)) (events_of x)"

text \<open>
  The value of \<^verbatim>\<open>pipeline_context["_risk_score"]\<close> when the loop has gone through the
  first \<open>n\<close> stages of a pipeline.
\<close>

definition risk_after ::
  "env \<Rightarrow> PipelineExecutor \<Rightarrow> PluginRegistry \<Rightarrow> Job \<Rightarrow> JobContext \<Rightarrow> string \<Rightarrow> Pipeline \<Rightarrow> nat
     \<Rightarrow> pyval option" where
  "risk_after E ex rg jb base_ctx pipeline_id pipeline n =
     running_context
       (snd (run_stages E ex jb base_ctx (take n (stages pipeline))
               (initial_state E jb pipeline_id pipeline rg)))
       ''_risk_score''"

text \<open>
  Every event that a plugin of the registry can return has the property \<open>P\<close>: for the
  instances in the cache, for the classes loaded, and for the classes an import can give.
\<close>

definition impl_events :: "(TraceEvent \<Rightarrow> bool) \<Rightarrow> plugin_impl \<Rightarrow> bool" where
  "impl_events P im \<longleftrightarrow> (\<forall>ctx r. run im ctx = Inr r \<longrightarrow> (\<forall>e \<in> set (events r). P e))"

definition class_events :: "(TraceEvent \<Rightarrow> bool) \<Rightarrow> plugin_class \<Rightarrow> bool" where
  "class_events P cls \<longleftrightarrow> (\<forall>m cfg im. cls m cfg = Inr im \<longrightarrow> impl_events P im)"

definition registry_events :: "(TraceEvent \<Rightarrow> bool) \<Rightarrow> importer \<Rightarrow> PluginRegistry \<Rightarrow> bool" where
  "registry_events P imp rg \<longleftrightarrow>
     (\<forall>k p. instances rg k = Some p \<longrightarrow> impl_events P (impl p)) \<and>
     (\<forall>k cls. plugins rg k = Some cls \<longrightarrow> class_events P cls) \<and>
     (\<forall>k cls. imp k = Inr cls \<longrightarrow> class_events P cls)"

definition from_laintrace :: "TraceEvent \<Rightarrow> bool" where
  "from_laintrace e \<longleftrightarrow> source e = laintrace"

text \<open>Orchestrators that track one job, pending or running, with no callbacks.\<close>

definition orchestrator_with :: "Job \<Rightarrow> unit Orchestrator" where
  "orchestrator_with jb =
     \<lparr> active_jobs = [job_id jb \<mapsto> jb], persist_finding = None, persist_artifact = None,
       persist_event = None, update_job = None \<rparr>"

definition pending_job :: Job where
  "pending_job = test_job\<lparr>status := pending\<rparr>"

text \<open>A store that holds job 1, and a worker whose surroundings never fail.\<close>

definition stored_job :: "models_JobStatus \<Rightarrow> db_Job" where
  "stored_job st =
     \<lparr> dj_id = 1, dj_target = ''/samples/clean.bin'', dj_status = st, dj_result = None,
       dj_pipeline_id = Some ''produce'', dj_progress = 0 \<rparr>"

definition world_with :: "models_JobStatus \<Rightarrow> world" where
  "world_with st =
     \<lparr> db = \<lparr> jobs = [1 \<mapsto> stored_job st], findings_table = [], artifacts_table = [],
              trace_events_table = [], events_table = [], inactive = False \<rparr>,
       reg = test_registry \<rparr>"

definition validate_job :: "db_Job \<Rightarrow> exn + Job" where
  "validate_job j =
     Inr (test_job\<lparr> job_id := dj_id j, target := dj_target j,
                     job_pipeline_id := (case dj_pipeline_id j of None \<Rightarrow> [] | Some p \<Rightarrow> p) \<rparr>)"

definition test_worker :: worker_env where
  "test_worker =
     \<lparr> exec_env = test_env, enforce_or_fail_worker = None, model_validate = validate_job,
       make_dirs = (\<lambda>jid. Inr (''/tmp/aetherframe/1'', ''/tmp/aetherframe/1/artifacts'')),
       time_now = 0,
       store_job = (\<lambda>j. None), store_event = (\<lambda>ev. None),
       store_finding = (\<lambda>f. None), store_artifact = (\<lambda>a. None),
       store_trace_event = (\<lambda>e. None) \<rparr>"

text \<open>The same worker on a store that rejects the finding titled \<^verbatim>\<open>first\<close>.\<close>

definition rejecting_worker :: worker_env where
  "rejecting_worker =
     test_worker\<lparr> store_finding :=
       (\<lambda>f. if title f = ''first'' then Some (Exn SQLAlchemyError ''IntegrityError'') else None) \<rparr>"

text \<open>
  What a call of \<^verbatim>\<open>process_job\<close> left: the exception it raised, if any, and in the
  store the titles of the findings, the names of the artifacts, the number of trace
  events, the types of the generic events, and the status of job \<open>jid\<close>.
\<close>

definition stored ::
  "int \<Rightarrow> (exn + (string \<times> pyval) list) \<times> world
     \<Rightarrow> string option \<times> string list \<times> string list \<times> nat \<times> string list
        \<times> models_JobStatus option" where
  "stored jid x =
     (case fst x of Inl e \<Rightarrow> Some (str_exn e) | Inr r \<Rightarrow> None,
      map title (findings_table (db (snd x))),
      map a_name (artifacts_table (db (snd x))),
      length (trace_events_table (db (snd x))),
      map fst (events_table (db (snd x))),
      map_option dj_status (jobs (db (snd x)) jid))"

text \<open>The world with the status of job \<open>jid\<close> replaced.\<close>

definition with_status :: "world \<Rightarrow> int \<Rightarrow> models_JobStatus \<Rightarrow> world" where
  "with_status w jid st =
     w\<lparr>db := (db w)\<lparr>jobs := (case jobs (db w) jid of
                                 None \<Rightarrow> jobs (db w)
                               | Some j \<Rightarrow> (jobs (db w))(jid \<mapsto> j\<lparr>dj_status := st\<rparr>))\<rparr>\<rparr>"

text \<open>
  The orchestrator's callbacks on the same kind of store: a list of the titles and names
  written, with the same rejection.
\<close>

definition write_finding :: "Finding \<Rightarrow> string list \<Rightarrow> exn + string list" where
  "write_finding f st =
     (if title f = ''first'' then Inl (Exn RuntimeError ''IntegrityError'')
      else Inr (st @ [title f]))"

definition write_artifact :: "Artifact \<Rightarrow> string list \<Rightarrow> exn + string list" where
  "write_artifact a st = Inr (st @ [a_name a])"

definition persisting_orchestrator :: "string list Orchestrator" where
  "persisting_orchestrator =
     \<lparr> active_jobs = Map.empty, persist_finding = Some write_finding,
       persist_artifact = Some write_artifact, persist_event = None, update_job = None \<rparr>"

definition productive_result :: PipelineExecutionResult where
  "productive_result =
     \<lparr> res_job_id = 1, res_pipeline_id = ''produce'', res_success = True,
       stages_executed = [''gate''], stages_skipped = [], stages_failed = [],
       total_findings = [finding1, finding2], total_artifacts = [artifact1],
       total_events = [], res_execution_time_ms = 5, res_error = None, res_risk_score = 0 \<rparr>"

text \<open>Instances and registries as \<^verbatim>\<open>get_instance\<close> leaves them on the registry above.\<close>

definition instance_of :: "nat \<Rightarrow> string \<Rightarrow> PluginResult \<Rightarrow> Plugin" where
  "instance_of n pname r =
     \<lparr> obj_id = n, manifest = manifest_of pname, p_config = Map.empty,
       impl = \<lparr> validate = (\<lambda>ctx. None), run = (\<lambda>ctx. Inr r) \<rparr> \<rparr>"

definition registry_with :: "string \<Rightarrow> Plugin \<Rightarrow> PluginRegistry" where
  "registry_with key p = test_registry\<lparr> instances := [key \<mapsto> p], next_obj := 1 \<rparr>"

definition start_state :: exec_state where
  "start_state = initial_state test_env test_job ''soft'' (pipeline_of ''soft'' []) test_registry"

text \<open>
  An event has the property \<open>P\<close> or is one of the executor's own: source
  \<^verbatim>\<open>orchestrator\<close> and the default sequence. The invariant of the loop: the registry
  only gives plugins whose events have \<open>P\<close>, and every event recorded so far is of one
  of the two kinds.
\<close>

definition own_or :: "(TraceEvent \<Rightarrow> bool) \<Rightarrow> TraceEvent \<Rightarrow> bool" where
  "own_or P e \<longleftrightarrow> P e \<or> (sequence e = 0 \<and> source e = orchestrator)"

definition events_inv :: "(TraceEvent \<Rightarrow> bool) \<Rightarrow> env \<Rightarrow> exec_state \<Rightarrow> bool" where
  "events_inv P E s \<longleftrightarrow>
     registry_events P (import_module E) (registry s) \<and> (\<forall>e \<in> set (all_events s). own_or P e)"

text \<open>The event that \<^verbatim>\<open>execute\<close> records before the loop.\<close>

definition pipeline_start_event :: "env \<Rightarrow> Job \<Rightarrow> string \<Rightarrow> Pipeline \<Rightarrow> TraceEvent" where
  "pipeline_start_event E jb pipeline_id pipeline =
     TraceEvent_new (utc_now E 0) (job_id jb) orchestrator stage_start
       [(''pipeline'', PStr pipeline_id),
        (''stages'', PList (map (\<lambda>st. PStr (name st)) (stages pipeline)))]"

text \<open>
  The registry after a sequence of calls of \<^verbatim>\<open>get_instance\<close>, each with its plugin id
  and configuration, whatever the calls return.
\<close>

fun get_instances ::
  "hasher \<Rightarrow> importer \<Rightarrow> PluginRegistry \<Rightarrow> (string \<times> pydict option) list \<Rightarrow> PluginRegistry" where
  "get_instances H I rg [] = rg"
| "get_instances H I rg ((pname, cfg) # calls) =
     get_instances H I (snd (get_instance H I rg pname cfg)) calls"

text \<open>
  What the executor returns on the pipeline \<^verbatim>\<open>produce\<close> for job 1, and the registry
  it leaves.
\<close>

definition produce_run :: PipelineExecutionResult where
  "produce_run =
     \<lparr> res_job_id = 1, res_pipeline_id = ''produce'', res_success = True,
       stages_executed = [''gate''], stages_skipped = [], stages_failed = [],
       total_findings =
         [finding1\<lparr>f_plugin_id := Some ''productive'', f_stage := Some ''gate''\<rparr>,
          finding2\<lparr>f_plugin_id := Some ''productive'', f_stage := Some ''gate''\<rparr>],
       total_artifacts =
         [artifact1\<lparr>a_plugin_id := Some ''productive'', a_stage := Some ''gate''\<rparr>],
       total_events =
         [TraceEvent_new 1000 1 orchestrator stage_start
            [(''pipeline'', PStr ''produce''), (''stages'', PList [PStr ''gate''])],
          TraceEvent_new 1000 1 orchestrator stage_complete
            [(''stage'', PStr ''gate''), (''plugin'', PStr ''productive''),
             (''findings'', PInt 2), (''artifacts'', PInt 1)]],
       res_execution_time_ms = 5, res_error = None, res_risk_score = 0 \<rparr>"

definition produce_registry :: PluginRegistry where
  "produce_registry = registry_with ''productive:0'' (instance_of 0 ''productive'' productive)"

section \<open>Properties\<close>

lemmas run_defs =
  outcome_def execute_def test_env_def test_pipelines_def pipeline_of_def stage_of_def
  stage_iteration_def should_execute_stage_def try_stage_def get_instance_def cache_key_def
  hash_zero_def config_or_empty_def str_int_def str_nat.simps digit_char_def test_registry_def
  load_def returning_def raising_def manifest_of_def stage_context_def aggregate_def annotate_def
  PluginResult_default_def plain_executor_def initial_state_def make_result_def
  stage_complete_event_def stage_error_event_def TraceEvent_new_def coarse_clock_def Let_def

lemmas worker_defs =
  stored_def process_job_def process_job_try_def persist_and_finish_def handle_failure_def
  world_with_def stored_job_def test_worker_def rejecting_worker_def validate_job_def
  update_job_status_def query_job_def commit_def fresh_session_def PendingRollbackError_def
  create_event_def create_finding_def create_artifact_def create_trace_event_def
  final_result_of_def final_status_def pipeline_id_or_default_def worker_context_def
  productive_def finding1_def finding2_def artifact1_def test_job_def

subsection \<open>A result with \<^verbatim>\<open>success=false\<close> (claim C1)\<close>

text \<open>
  Claim C1 says that a stage whose plugin returns a result with \<^verbatim>\<open>success=false\<close>,
  without raising, is recorded in \<^verbatim>\<open>stages_failed\<close> and halts the pipeline when it is
  not optional. On the pipeline \<^verbatim>\<open>soft\<close>, whose only stage is not optional and whose
  plugin returns such a result, the stage is in \<^verbatim>\<open>stages_executed\<close>, nothing is in
  \<^verbatim>\<open>stages_failed\<close>, there is no error and the run is a success.
\<close>

theorem unsuccessful_result_counterexample:
  "outcome (execute test_env plain_executor test_registry test_job ''soft'' test_ctx)
     = Some (True, [''gate''], [], [], None)"
  by (simp add: run_defs soft_failure_def)

text \<open>
  Claim C1, amended: when the condition of a stage holds, the registry gives an instance,
  \<^verbatim>\<open>validate\<close> accepts, \<^verbatim>\<open>run\<close> returns a result with \<^verbatim>\<open>success=false\<close> and the
  callback \<^verbatim>\<open>on_stage_complete\<close>, if there is one, returns, the executor records the
  stage as executed: its name is appended to \<^verbatim>\<open>stages_executed\<close>,
  \<^verbatim>\<open>stages_failed\<close> is unchanged, the result becomes the previous result of the next
  stage, and the loop goes on (or breaks on \<^verbatim>\<open>skip_remaining\<close>); it never halts with an
  error, optional or not.
\<close>

theorem unsuccessful_result_is_executed:
  assumes "should_execute_stage (py_eval E) stage (last_result s) (running_context s) = Inr True"
    and "get_instance (py_hash E) (import_module E) (registry s) (plugin_id stage)
           (Some (config stage)) = (Inr plg, rg1)"
    and "validate (impl plg) (stage_context jb base_ctx s) = None"
    and "run (impl plg) (stage_context jb base_ctx s) = Inr result"
    and "\<not> success result"
    and "case on_stage_complete ex of
           None \<Rightarrow> True
         | Some callback \<Rightarrow> callback (name stage) (annotate stage result) = None"
  shows "fst (stage_iteration E ex jb base_ctx stage s)
           = Inr (if skip_remaining result then Break else Continue) \<and>
         executed (snd (stage_iteration E ex jb base_ctx stage s)) = executed s @ [name stage] \<and>
         failed_stages (snd (stage_iteration E ex jb base_ctx stage s)) = failed_stages s \<and>
         map_option success (last_result (snd (stage_iteration E ex jb base_ctx stage s)))
           = Some False"
  using assms
  by (cases "on_stage_complete ex")
     (simp_all add: stage_iteration_def try_stage_def aggregate_def Let_def,
      simp_all add: annotate_def)

text \<open>The theorem for claim C1 on the stage of the pipeline \<^verbatim>\<open>soft\<close>.\<close>

theorem unsuccessful_result_is_executed_witness:
  "should_execute_stage (py_eval test_env) (stage_of ''gate'' ''soft'' always False)
      (last_result start_state) (running_context start_state) = Inr True \<and>
   get_instance (py_hash test_env) (import_module test_env) (registry start_state)
      (plugin_id (stage_of ''gate'' ''soft'' always False))
      (Some (config (stage_of ''gate'' ''soft'' always False)))
     = (Inr (instance_of 0 ''soft'' soft_failure),
        registry_with ''soft:0'' (instance_of 0 ''soft'' soft_failure)) \<and>
   \<not> success soft_failure \<and>
   fst (stage_iteration test_env plain_executor test_job test_ctx
          (stage_of ''gate'' ''soft'' always False) start_state) = Inr Continue \<and>
   executed (snd (stage_iteration test_env plain_executor test_job test_ctx
          (stage_of ''gate'' ''soft'' always False) start_state)) = [''gate''] \<and>
   failed_stages (snd (stage_iteration test_env plain_executor test_job test_ctx
          (stage_of ''gate'' ''soft'' always False) start_state)) = []"
proof -
  have a: "should_execute_stage (py_eval test_env) (stage_of ''gate'' ''soft'' always False)
      (last_result start_state) (running_context start_state) = Inr True"
    by (simp add: should_execute_stage_def stage_of_def)
  have k: "cache_key hash_zero ''soft'' (Some Map.empty) = Inr ''soft:0''"
    by (simp add: cache_key_def hash_zero_def str_int_def str_nat.simps digit_char_def
        config_or_empty_def)
  have b: "get_instance (py_hash test_env) (import_module test_env) (registry start_state)
      (plugin_id (stage_of ''gate'' ''soft'' always False))
      (Some (config (stage_of ''gate'' ''soft'' always False)))
     = (Inr (instance_of 0 ''soft'' soft_failure),
        registry_with ''soft:0'' (instance_of 0 ''soft'' soft_failure))"
    by (simp add: get_instance_def k load_def test_registry_def returning_def test_env_def
        instance_of_def registry_with_def config_or_empty_def start_state_def
        initial_state_def stage_of_def Let_def)
  have c: "validate (impl (instance_of 0 ''soft'' soft_failure))
             (stage_context test_job test_ctx start_state) = None"
    by (simp add: instance_of_def)
  have d: "run (impl (instance_of 0 ''soft'' soft_failure))
             (stage_context test_job test_ctx start_state) = Inr soft_failure"
    by (simp add: instance_of_def)
  have e: "\<not> success soft_failure"
    by (simp add: soft_failure_def PluginResult_default_def)
  have f: "case on_stage_complete plain_executor of
             None \<Rightarrow> True
           | Some callback \<Rightarrow>
               callback (name (stage_of ''gate'' ''soft'' always False))
                 (annotate (stage_of ''gate'' ''soft'' always False) soft_failure) = None"
    by (simp add: plain_executor_def)
  have g: "\<not> skip_remaining soft_failure"
    by (simp add: soft_failure_def PluginResult_default_def)
  show ?thesis
    using unsuccessful_result_is_executed [OF a b c d e f] a b e g
    by (simp add: start_state_def initial_state_def stage_of_def)
qed

subsection \<open>The success flag (claim C2)\<close>






subsection \<open>A job that is already terminal (claim C3)\<close>

text \<open>
  Claim C3 says that \<^verbatim>\<open>process_job\<close> on a job whose status is already terminal does
  nothing. On a store whose job 1 is \<^verbatim>\<open>completed\<close>, the call returns normally and the
  store then holds two findings, an artifact and two trace events of a new run.
\<close>

theorem terminal_job_processed_again_counterexample:
  "stored 1 (process_job test_worker (world_with st_completed) 1 ''/samples/clean.bin'')
     = (None, [''first'', ''second''], [''report.json''], 2, [], Some st_completed)"
  by (simp add: worker_defs run_defs)

text \<open>A loop over rows that the database accepts appends them all.\<close>

lemma create_each_findings:
  "\<not> inactive d \<Longrightarrow> \<forall>f \<in> set fs. store_finding W f = None \<Longrightarrow>
   create_each (create_finding W) fs d = (None, d\<lparr>findings_table := findings_table d @ fs\<rparr>)"
  by (induction fs arbitrary: d) (simp_all add: create_finding_def commit_def)

lemma create_each_artifacts:
  "\<not> inactive d \<Longrightarrow> \<forall>a \<in> set as. store_artifact W a = None \<Longrightarrow>
   create_each (create_artifact W) as d = (None, d\<lparr>artifacts_table := artifacts_table d @ as\<rparr>)"
  by (induction as arbitrary: d) (simp_all add: create_artifact_def commit_def)

lemma create_each_trace_events:
  "\<not> inactive d \<Longrightarrow> \<forall>e \<in> set es. store_trace_event W e = None \<Longrightarrow>
   create_each (create_trace_event W) es d
     = (None, d\<lparr>trace_events_table :=
                   trace_events_table d @ map (\<lambda>e. e\<lparr>process_id := None\<rparr>) es\<rparr>)"
  by (induction es arbitrary: d) (simp_all add: create_trace_event_def commit_def)

text \<open>
  Claim C3, amended: \<^verbatim>\<open>process_job\<close> does not look at the status of the job. When the
  licence check passes, the job is in the store and the database accepts its update to
  \<^verbatim>\<open>running\<close>, what the call returns and what it leaves in the store are the same
  whatever the status of the job was, terminal or not. When moreover the job validates,
  the directories are made, the executor returns a result for the pipeline of the job and
  the database accepts every row, the call returns the summary of that result and leaves
  the store with the findings, the artifacts and the trace events of the result appended,
  and with the job's status \<^verbatim>\<open>completed\<close> or \<^verbatim>\<open>failed\<close> by the success flag of that
  result and the job's result replaced by the summary.
\<close>

theorem process_job_ignores_status:
  assumes "enforce_or_fail_worker W = None"
    and "jobs (db w) jid = Some j"
    and "store_job W (j\<lparr>dj_status := st_running\<rparr>) = None"
  shows "process_job W (with_status w jid st) jid tgt
           = process_job W (with_status w jid st') jid tgt \<and>
         (model_validate W (j\<lparr>dj_status := st_running\<rparr>) = Inr js \<and>
          make_dirs W jid = Inr (wdir, adir) \<and>
          execute (exec_env W) \<lparr>on_stage_complete = None\<rparr> (reg w) js
            (pipeline_id_or_default j) (worker_context js tgt wdir adir) = (Inr result, rg') \<and>
          (\<forall>f \<in> set (total_findings result). store_finding W f = None) \<and>
          (\<forall>a \<in> set (total_artifacts result). store_artifact W a = None) \<and>
          (\<forall>e \<in> set (total_events result). store_trace_event W e = None) \<and>
          store_job W
            (j\<lparr> dj_status := final_status result,
                dj_result := Some (PDict (final_result_of (pipeline_id_or_default j) result)) \<rparr>)
            = None
          \<longrightarrow>
          process_job W w jid tgt
            = (Inr (final_result_of (pipeline_id_or_default j) result),
               \<lparr> db = (db w)
                   \<lparr> jobs := (jobs (db w))(jid \<mapsto>
                       j\<lparr> dj_status := final_status result,
                           dj_result :=
                             Some (PDict (final_result_of (pipeline_id_or_default j) result)) \<rparr>),
                     findings_table := findings_table (db w) @ total_findings result,
                     artifacts_table := artifacts_table (db w) @ total_artifacts result,
                     trace_events_table :=
                       trace_events_table (db w)
                         @ map (\<lambda>e. e\<lparr>process_id := None\<rparr>) (total_events result),
                     inactive := False \<rparr>,
                 reg = rg' \<rparr>))"
proof (intro conjI impI)
  show "process_job W (with_status w jid st) jid tgt = process_job W (with_status w jid st') jid tgt"
    using assms
    by (simp add: process_job_def process_job_try_def with_status_def update_job_status_def
          query_job_def commit_def fresh_session_def pipeline_id_or_default_def Let_def)
next
  assume h: "model_validate W (j\<lparr>dj_status := st_running\<rparr>) = Inr js \<and>
          make_dirs W jid = Inr (wdir, adir) \<and>
          execute (exec_env W) \<lparr>on_stage_complete = None\<rparr> (reg w) js
            (pipeline_id_or_default j) (worker_context js tgt wdir adir) = (Inr result, rg') \<and>
          (\<forall>f \<in> set (total_findings result). store_finding W f = None) \<and>
          (\<forall>a \<in> set (total_artifacts result). store_artifact W a = None) \<and>
          (\<forall>e \<in> set (total_events result). store_trace_event W e = None) \<and>
          store_job W
            (j\<lparr> dj_status := final_status result,
                dj_result := Some (PDict (final_result_of (pipeline_id_or_default j) result)) \<rparr>)
            = None"
  define d1 where "d1 = (db w)\<lparr>inactive := False, jobs := (jobs (db w))(jid \<mapsto> j\<lparr>dj_status := st_running\<rparr>)\<rparr>"
  have a1: "\<not> inactive d1" by (simp add: d1_def)
  have u: "update_job_status W (fresh_session (db w)) jid st_running None
             = (Inr (Some (j\<lparr>dj_status := st_running\<rparr>)), d1)"
    using assms by (simp add: update_job_status_def query_job_def commit_def fresh_session_def
        d1_def Let_def)
  define d2 where "d2 = d1\<lparr>findings_table := findings_table d1 @ total_findings result\<rparr>"
  have c1: "create_each (create_finding W) (total_findings result) d1 = (None, d2)"
    using create_each_findings [OF a1] h by (simp add: d2_def)
  have a2: "\<not> inactive d2" by (simp add: d2_def d1_def)
  define d3 where "d3 = d2\<lparr>artifacts_table := artifacts_table d2 @ total_artifacts result\<rparr>"
  have c2: "create_each (create_artifact W) (total_artifacts result) d2 = (None, d3)"
    using create_each_artifacts [OF a2] h by (simp add: d3_def)
  have a3: "\<not> inactive d3" by (simp add: d3_def d2_def d1_def)
  define d4 where "d4 = d3\<lparr>trace_events_table := trace_events_table d3
      @ map (\<lambda>e. e\<lparr>process_id := None\<rparr>) (total_events result)\<rparr>"
  have c3: "create_each (create_trace_event W) (total_events result) d3 = (None, d4)"
    using create_each_trace_events [OF a3] h by (simp add: d4_def)
  have lit: "\<And>x. w\<lparr>db := x, reg := rg'\<rparr> = \<lparr>db = x, reg = rg'\<rparr>"
    by (cases w) simp
  have p: "persist_and_finish W (w\<lparr>db := d1, reg := rg'\<rparr>) jid (pipeline_id_or_default j) result
      = (Inr (final_result_of (pipeline_id_or_default j) result),
         \<lparr>db = d4\<lparr>jobs := (jobs d4)(jid \<mapsto>
                    j\<lparr> dj_status := final_status result,
                        dj_result :=
                          Some (PDict (final_result_of (pipeline_id_or_default j) result)) \<rparr>)\<rparr>,
           reg = rg'\<rparr>)"
    using h c1 c2 c3
    by (simp add: persist_and_finish_def update_job_status_def query_job_def commit_def Let_def
        lit d4_def d3_def d2_def d1_def)
  have t: "process_job_try W (w\<lparr>db := fresh_session (db w)\<rparr>) jid tgt
      = (Inr (final_result_of (pipeline_id_or_default j) result),
         \<lparr>db = d4\<lparr>jobs := (jobs d4)(jid \<mapsto>
                    j\<lparr> dj_status := final_status result,
                        dj_result :=
                          Some (PDict (final_result_of (pipeline_id_or_default j) result)) \<rparr>)\<rparr>,
           reg = rg'\<rparr>)"
    using assms h u p
    by (simp add: process_job_try_def query_job_def fresh_session_def Let_def)
  show "process_job W w jid tgt
            = (Inr (final_result_of (pipeline_id_or_default j) result),
               \<lparr> db = (db w)
                   \<lparr> jobs := (jobs (db w))(jid \<mapsto>
                       j\<lparr> dj_status := final_status result,
                           dj_result :=
                             Some (PDict (final_result_of (pipeline_id_or_default j) result)) \<rparr>),
                     findings_table := findings_table (db w) @ total_findings result,
                     artifacts_table := artifacts_table (db w) @ total_artifacts result,
                     trace_events_table :=
                       trace_events_table (db w)
                         @ map (\<lambda>e. e\<lparr>process_id := None\<rparr>) (total_events result),
                     inactive := False \<rparr>,
                 reg = rg' \<rparr>)"
    using assms t
    by (simp add: process_job_def fresh_session_def d4_def d3_def d2_def d1_def)
qed

text \<open>The theorem for claim C3 on the store whose job 1 is \<^verbatim>\<open>completed\<close>.\<close>

theorem process_job_ignores_status_witness:
  "enforce_or_fail_worker test_worker = None \<and>
   jobs (db (world_with st_completed)) 1 = Some (stored_job st_completed) \<and>
   execute (exec_env test_worker) \<lparr>on_stage_complete = None\<rparr> (reg (world_with st_completed))
       (test_job\<lparr>job_pipeline_id := ''produce''\<rparr>) ''produce''
       (worker_context (test_job\<lparr>job_pipeline_id := ''produce''\<rparr>) ''/samples/clean.bin''
          ''/tmp/aetherframe/1'' ''/tmp/aetherframe/1/artifacts'')
     = (Inr produce_run, produce_registry) \<and>
   process_job test_worker (with_status (world_with st_completed) 1 st_completed) 1
       ''/samples/clean.bin''
     = process_job test_worker (with_status (world_with st_completed) 1 st_pending) 1
         ''/samples/clean.bin'' \<and>
   fst (process_job test_worker (world_with st_completed) 1 ''/samples/clean.bin'')
     = Inr (final_result_of ''produce'' produce_run) \<and>
   findings_table (db (snd (process_job test_worker (world_with st_completed) 1
       ''/samples/clean.bin''))) = total_findings produce_run \<and>
   map_option dj_status (jobs (db (snd (process_job test_worker (world_with st_completed) 1
       ''/samples/clean.bin''))) 1) = Some st_completed"
proof -
  have l: "enforce_or_fail_worker test_worker = None" by (simp add: test_worker_def)
  have j: "jobs (db (world_with st_completed)) 1 = Some (stored_job st_completed)"
    by (simp add: world_with_def)
  have s: "store_job test_worker ((stored_job st_completed)\<lparr>dj_status := st_running\<rparr>) = None"
    by (simp add: test_worker_def)
  have v: "model_validate test_worker ((stored_job st_completed)\<lparr>dj_status := st_running\<rparr>)
             = Inr (test_job\<lparr>job_pipeline_id := ''produce''\<rparr>)"
    by (simp add: test_worker_def validate_job_def stored_job_def test_job_def)
  have m: "make_dirs test_worker 1 = Inr (''/tmp/aetherframe/1'', ''/tmp/aetherframe/1/artifacts'')"
    by (simp add: test_worker_def)
  have pl: "pipeline_id_or_default (stored_job st_completed) = ''produce''"
    by (simp add: pipeline_id_or_default_def stored_job_def)
  have x: "execute (exec_env test_worker) \<lparr>on_stage_complete = None\<rparr>
       (reg (world_with st_completed))
       (test_job\<lparr>job_pipeline_id := ''produce''\<rparr>) ''produce''
       (worker_context (test_job\<lparr>job_pipeline_id := ''produce''\<rparr>) ''/samples/clean.bin''
          ''/tmp/aetherframe/1'' ''/tmp/aetherframe/1/artifacts'')
     = (Inr produce_run, produce_registry)"
    by (simp add: run_defs test_worker_def world_with_def worker_context_def produce_run_def
        produce_registry_def registry_with_def instance_of_def productive_def test_job_def
        finding1_def finding2_def artifact1_def)
  have f: "\<forall>f \<in> set (total_findings produce_run). store_finding test_worker f = None"
    by (simp add: test_worker_def)
  have a: "\<forall>a \<in> set (total_artifacts produce_run). store_artifact test_worker a = None"
    by (simp add: test_worker_def)
  have e: "\<forall>e \<in> set (total_events produce_run). store_trace_event test_worker e = None"
    by (simp add: test_worker_def)
  have u: "store_job test_worker
            ((stored_job st_completed)\<lparr> dj_status := final_status produce_run,
                dj_result := Some (PDict (final_result_of ''produce'' produce_run)) \<rparr>) = None"
    by (simp add: test_worker_def)
  have fs: "final_status produce_run = st_completed"
    by (simp add: final_status_def produce_run_def)
  show ?thesis
    using process_job_ignores_status [OF l j s, of st_completed "''/samples/clean.bin''" st_pending
        "test_job\<lparr>job_pipeline_id := ''produce''\<rparr>" "''/tmp/aetherframe/1''"
        "''/tmp/aetherframe/1/artifacts''" produce_run produce_registry]
      l j v m x f a e u
    by (simp add: pl fs world_with_def)
qed

subsection \<open>Cancelling a job (claim C4)\<close>

text \<open>
  Claim C4 says that \<^verbatim>\<open>cancel\<close> on a pending or running job makes it cancelled and
  reports success. On an orchestrator that tracks the pending job 1, \<^verbatim>\<open>cancel\<close>
  returns \<^verbatim>\<open>False\<close> and changes nothing.
\<close>

theorem cancel_pending_counterexample:
  "cancel (orchestrator_with pending_job) () 1 = (Inr False, orchestrator_with pending_job, ())"
  by (simp add: cancel_def orchestrator_with_def pending_job_def test_job_def)

text \<open>
  Claim C4, amended: \<^verbatim>\<open>cancel\<close> on a tracked job whose status is \<^verbatim>\<open>running\<close> makes
  it \<^verbatim>\<open>cancelled\<close> and returns \<^verbatim>\<open>True\<close>, unless the \<^verbatim>\<open>update_job\<close> callback raises;
  on a tracked job in any other status, \<^verbatim>\<open>pending\<close> included, and on a job that is not
  tracked, it returns \<^verbatim>\<open>False\<close> and leaves everything as it was.
\<close>

theorem cancel_running_only:
  "(active_jobs orch jid = Some jb \<and> status jb = running \<longrightarrow>
      map_option status (active_jobs (fst (snd (cancel orch st jid))) jid) = Some cancelled \<and>
      (case update_job orch of
         None \<Rightarrow> fst (cancel orch st jid) = Inr True
       | Some callback \<Rightarrow>
           (case callback (jb\<lparr>status := cancelled\<rparr>) st of
              Inl e \<Rightarrow> fst (cancel orch st jid) = Inl e
            | Inr st' \<Rightarrow> fst (cancel orch st jid) = Inr True)))
   \<and> (active_jobs orch jid = Some jb \<and> status jb \<noteq> running \<longrightarrow>
      cancel orch st jid = (Inr False, orch, st))
   \<and> (active_jobs orch jid = None \<longrightarrow> cancel orch st jid = (Inr False, orch, st))"
  by (simp add: cancel_def Let_def split: option.splits sum.splits)

text \<open>The theorem for claim C4 on a running job, on a pending job and on an unknown job.\<close>

theorem cancel_running_only_witness:
  "active_jobs (orchestrator_with test_job) 1 = Some test_job \<and> status test_job = running \<and>
   fst (cancel (orchestrator_with test_job) () 1) = Inr True \<and>
   map_option status (active_jobs (fst (snd (cancel (orchestrator_with test_job) () 1))) 1)
     = Some cancelled \<and>
   active_jobs (orchestrator_with pending_job) 1 = Some pending_job \<and>
   status pending_job \<noteq> running \<and>
   cancel (orchestrator_with pending_job) () 1 = (Inr False, orchestrator_with pending_job, ()) \<and>
   active_jobs (orchestrator_with test_job) 2 = None \<and>
   cancel (orchestrator_with test_job) () 2 = (Inr False, orchestrator_with test_job, ())"
proof -
  have a: "active_jobs (orchestrator_with test_job) 1 = Some test_job"
    by (simp add: orchestrator_with_def test_job_def)
  have b: "status test_job = running" by (simp add: test_job_def)
  have c: "update_job (orchestrator_with test_job) = None" by (simp add: orchestrator_with_def)
  have d: "active_jobs (orchestrator_with pending_job) 1 = Some pending_job"
    by (simp add: orchestrator_with_def pending_job_def test_job_def)
  have e: "status pending_job \<noteq> running" by (simp add: pending_job_def)
  have f: "active_jobs (orchestrator_with test_job) 2 = None"
    by (simp add: orchestrator_with_def test_job_def)
  show ?thesis
    using cancel_running_only [of "orchestrator_with test_job" 1 test_job "()"]
      cancel_running_only [of "orchestrator_with pending_job" 1 pending_job "()"]
      cancel_running_only [of "orchestrator_with test_job" 2 test_job "()"] a b c d e f
    by simp
qed

subsection \<open>\<^verbatim>\<open>on_success\<close> with no previous result (claim C5)\<close>

text \<open>
  Claim C5 says that a stage with the condition \<^verbatim>\<open>on_success\<close> that comes first, when
  no stage has produced a result, is executed. On the pipeline \<^verbatim>\<open>eager\<close>, whose only
  stage has this condition, the stage is skipped.
\<close>

theorem on_success_first_counterexample:
  "outcome (execute test_env plain_executor test_registry test_job ''eager'' test_ctx)
     = Some (True, [], [''gate''], [], None)"
  by (simp add: outcome_def execute_def test_env_def test_pipelines_def pipeline_of_def
      stage_of_def stage_iteration_def should_execute_stage_def initial_state_def
      make_result_def)

text \<open>
  Claim C5, amended: when there is no previous result, the check is true exactly for the
  condition \<^verbatim>\<open>always\<close>; so a stage with the condition \<^verbatim>\<open>on_success\<close> is not
  executed: the check gives false, and the loop appends the name of the stage to
  \<^verbatim>\<open>stages_skipped\<close> and goes on.
\<close>

theorem on_success_without_previous_skipped:
  assumes "last_result s = None"
  shows "should_execute_stage ev stage None ctx = Inr (condition stage = always) \<and>
         (condition stage = on_success \<longrightarrow>
            should_execute_stage ev stage None ctx = Inr False \<and>
            stage_iteration E ex jb base_ctx stage s
              = (Inr Continue, s\<lparr>skipped := skipped s @ [name stage]\<rparr>))"
  using assms by (simp add: should_execute_stage_def stage_iteration_def)

text \<open>
  The theorem for claim C5 on the first state of a run, for the conditions
  \<^verbatim>\<open>on_success\<close>, \<^verbatim>\<open>always\<close> and \<^verbatim>\<open>on_failure\<close>.
\<close>

theorem on_success_without_previous_skipped_witness:
  "last_result start_state = None \<and>
   condition (stage_of ''gate'' ''ok'' on_success False) = on_success \<and>
   should_execute_stage no_eval (stage_of ''gate'' ''ok'' on_success False) None Map.empty
     = Inr False \<and>
   should_execute_stage no_eval (stage_of ''gate'' ''ok'' always False) None Map.empty
     = Inr True \<and>
   should_execute_stage no_eval (stage_of ''gate'' ''ok'' on_failure False) None Map.empty
     = Inr False \<and>
   skipped (snd (stage_iteration test_env plain_executor test_job test_ctx
        (stage_of ''gate'' ''ok'' on_success False) start_state)) = [''gate'']"
proof -
  have l: "last_result start_state = None"
    by (simp add: start_state_def initial_state_def)
  have c: "condition (stage_of ''gate'' ''ok'' on_success False) = on_success"
    by (simp add: stage_of_def)
  show ?thesis
    using on_success_without_previous_skipped [OF l, of no_eval
        "stage_of ''gate'' ''ok'' on_success False" Map.empty test_env plain_executor test_job
        test_ctx]
      on_success_without_previous_skipped [OF l, of no_eval
        "stage_of ''gate'' ''ok'' always False" Map.empty test_env plain_executor test_job
        test_ctx]
      on_success_without_previous_skipped [OF l, of no_eval
        "stage_of ''gate'' ''ok'' on_failure False" Map.empty test_env plain_executor test_job
        test_ctx] l c
    by (simp add: start_state_def initial_state_def stage_of_def)
qed

subsection \<open>A failure of the store while the worker persists (claim C6)\<close>

text \<open>
  Claim C6 says that the worker persists findings, artifacts and trace events in this
  order and that a failure on one row does not keep the remaining rows from being
  persisted. On a store that rejects the finding \<^verbatim>\<open>first\<close>, the loop of
  \<^verbatim>\<open>process_job\<close> ends at that row: the finding \<^verbatim>\<open>second\<close>, the artifact and the trace
  events are not written. The handler then works on the session whose commit has failed,
  so its own update raises: the call raises that exception, no \<^verbatim>\<open>job_failed\<close> event is
  written, and the job keeps the status \<^verbatim>\<open>running\<close>.
\<close>

theorem rejected_row_aborts_batch:
  "stored 1 (process_job rejecting_worker (world_with st_pending) 1 ''/samples/clean.bin'')
     = (Some ''PendingRollbackError'', [], [], 0, [], Some st_running)"
  by (simp add: worker_defs run_defs)
text \<open>
  \<^verbatim>\<open>Orchestrator._persist_results\<close>, on the same rows and the same rejection, logs the
  failure and writes the rest.
\<close>

lemma persist_results_goes_on:
  "persist_results persisting_orchestrator productive_result ([], [])
     = ([''second'', ''report.json''], [''Failed to persist finding: IntegrityError''])"
  by (simp add: persist_results_def persisting_orchestrator_def productive_result_def
      write_finding_def write_artifact_def finding1_def finding2_def artifact1_def)

subsection \<open>The sequence of trace events (claim C7)\<close>

text \<open>
  Claim C7 says that every trace event of a job gets a sequence value that increases
  within the job, so that the events are totally ordered by \<open>(ts, sequence)\<close>. On the
  pipeline \<^verbatim>\<open>trace\<close>, whose plugin numbers its two events 0 and 1, the executor's own
  events all carry 0, whatever the clock: the completion event, recorded last, has a
  smaller sequence than the plugin event before it. (The readings 1000 are those of the
  clock chosen here.)
\<close>

theorem sequence_not_increasing_counterexample:
  "event_keys (execute test_env plain_executor test_registry test_job ''trace'' test_ctx)
     = [(1000, 0), (1000, 0), (1000, 1), (1000, 0)]"
  by (simp add: event_keys_def events_of_def run_defs tracing_def hook_event_def)

text \<open>The invariant holds along the loop.\<close>

lemma load_events:
  assumes "registry_events P I rg" and "load I rg pname = (r, rg1)"
  shows "registry_events P I rg1 \<and> (\<forall>cls. r = Inr cls \<longrightarrow> class_events P cls)"
proof (cases "plugins rg pname")
  case (Some cls)
  with assms show ?thesis by (auto simp add: load_def registry_events_def)
next
  case None
  show ?thesis
  proof (cases "manifests rg pname")
    case None
    with assms \<open>plugins rg pname = None\<close> show ?thesis by (auto simp add: load_def)
  next
    case (Some m)
    show ?thesis
    proof (cases "I pname")
      case (Inl e)
      with assms None Some show ?thesis by (auto simp add: load_def)
    next
      case (Inr cls)
      with assms(1) have c: "class_events P cls" by (auto simp add: registry_events_def)
      from assms(2) None Some Inr
      have r: "r = Inr cls" and rg1: "rg1 = rg\<lparr>plugins := (plugins rg)(pname \<mapsto> cls)\<rparr>"
        by (simp_all add: load_def)
      from assms(1) c have "registry_events P I rg1"
        unfolding rg1 by (auto simp add: registry_events_def)
      with r c show ?thesis by simp
    qed
  qed
qed

lemma get_instance_events:
  assumes "registry_events P I rg" and "get_instance H I rg pname cfg = (r, rg1)"
  shows "registry_events P I rg1 \<and> (\<forall>p. r = Inr p \<longrightarrow> impl_events P (impl p))"
proof (cases "cache_key H pname cfg")
  case (Inl e)
  with assms show ?thesis by (auto simp add: get_instance_def)
next
  case (Inr key)
  show ?thesis
  proof (cases "instances rg key")
    case (Some p)
    with assms Inr show ?thesis by (auto simp add: get_instance_def registry_events_def)
  next
    case None
    obtain lr rg2 where l: "load I rg pname = (lr, rg2)" by (cases "load I rg pname")
    from load_events [OF assms(1) l]
    have inv2: "registry_events P I rg2" and cls: "\<forall>cls. lr = Inr cls \<longrightarrow> class_events P cls"
      by simp_all
    show ?thesis
    proof (cases lr)
      case (Inl e)
      with assms Inr None l inv2 show ?thesis by (auto simp add: get_instance_def)
    next
      case (Inr cls')
      with cls have c: "class_events P cls'" by simp
      show ?thesis
      proof (cases "manifests rg2 pname")
        case None
        with assms \<open>cache_key H pname cfg = Inr key\<close> \<open>instances rg key = None\<close> l Inr inv2
        show ?thesis by (auto simp add: get_instance_def)
      next
        case (Some m)
        show ?thesis
        proof (cases "cls' m cfg")
          case (Inl e)
          with assms \<open>cache_key H pname cfg = Inr key\<close> \<open>instances rg key = None\<close> l Inr Some inv2
          show ?thesis by (auto simp add: get_instance_def)
        next
          case (Inr im)
          with c have im: "impl_events P im" by (auto simp add: class_events_def)
          from assms \<open>cache_key H pname cfg = Inr key\<close> \<open>instances rg key = None\<close> l
            \<open>lr = Inr cls'\<close> Some Inr
          have r: "r = Inr \<lparr> obj_id = next_obj rg2, manifest = m,
                              p_config = config_or_empty cfg, impl = im \<rparr>"
            and rg1: "rg1 = rg2\<lparr> instances := (instances rg2)(key \<mapsto>
                         \<lparr> obj_id = next_obj rg2, manifest = m,
                           p_config = config_or_empty cfg, impl = im \<rparr>),
                       next_obj := Suc (next_obj rg2) \<rparr>"
            by (simp_all add: get_instance_def Let_def)
          from inv2 im have "registry_events P I rg1"
            unfolding rg1 by (auto simp add: registry_events_def)
          with r im show ?thesis by simp
        qed
      qed
    qed
  qed
qed

lemma aggregate_events:
  assumes "events_inv P E s" and "\<forall>e \<in> set (events result). P e"
    and "aggregate E ex jb stage result s = (r, s')"
  shows "events_inv P E s'"
  using assms
  by (auto simp add: aggregate_def events_inv_def annotate_def Let_def own_or_def
      stage_complete_event_def TraceEvent_new_def split: option.splits)

lemma try_stage_events:
  assumes "events_inv P E s" and "try_stage E ex jb base_ctx stage s = (r, s')"
  shows "events_inv P E s'"
proof -
  obtain gr rg1 where g: "get_instance (py_hash E) (import_module E) (registry s)
      (plugin_id stage) (Some (config stage)) = (gr, rg1)"
    by (cases "get_instance (py_hash E) (import_module E) (registry s)
      (plugin_id stage) (Some (config stage))")
  from assms(1) have "registry_events P (import_module E) (registry s)"
    by (simp add: events_inv_def)
  from get_instance_events [OF this g]
  have rg1: "registry_events P (import_module E) rg1"
    and ok: "\<forall>p. gr = Inr p \<longrightarrow> impl_events P (impl p)" by simp_all
  from assms(1) rg1 have inv1: "events_inv P E (s\<lparr>registry := rg1\<rparr>)"
    by (simp add: events_inv_def)
  show ?thesis
  proof (cases gr)
    case (Inl e)
    with assms(2) g inv1 show ?thesis by (simp add: try_stage_def)
  next
    case (Inr plg)
    with ok have im: "impl_events P (impl plg)" by simp
    show ?thesis
    proof (cases "validate (impl plg) (stage_context jb base_ctx s)")
      case (Some e)
      with assms(2) g Inr inv1 show ?thesis by (simp add: try_stage_def Let_def)
    next
      case None
      show ?thesis
      proof (cases "run (impl plg) (stage_context jb base_ctx s)")
        case (Inl e)
        with assms(2) g Inr None inv1 show ?thesis by (simp add: try_stage_def Let_def)
      next
        case (Inr result)
        with im have ev: "\<forall>e \<in> set (events result). P e" by (auto simp add: impl_events_def)
        from assms(2) g \<open>gr = Inr plg\<close> None Inr
        have "aggregate E ex jb stage result (s\<lparr>registry := rg1\<rparr>) = (r, s')"
          by (simp add: try_stage_def Let_def)
        from aggregate_events [OF inv1 ev this] show ?thesis .
      qed
    qed
  qed
qed

lemma stage_iteration_events:
  assumes "events_inv P E s" and "stage_iteration E ex jb base_ctx stage s = (r, s')"
  shows "events_inv P E s'"
proof (cases "should_execute_stage (py_eval E) stage (last_result s) (running_context s)")
  case (Inl e)
  with assms show ?thesis by (simp add: stage_iteration_def)
next
  case (Inr go)
  show ?thesis
  proof (cases go)
    case False
    with assms Inr show ?thesis by (auto simp add: stage_iteration_def events_inv_def)
  next
    case True
    obtain tr s1 where t: "try_stage E ex jb base_ctx stage s = (tr, s1)"
      by (cases "try_stage E ex jb base_ctx stage s")
    from try_stage_events [OF assms(1) t] have inv1: "events_inv P E s1" .
    show ?thesis
    proof (cases tr)
      case (Inr skip)
      with assms(2) \<open>should_execute_stage (py_eval E) stage (last_result s) (running_context s) = Inr go\<close>
        True t inv1 show ?thesis by (simp add: stage_iteration_def)
    next
      case (Inl e)
      with assms(2) \<open>should_execute_stage (py_eval E) stage (last_result s) (running_context s) = Inr go\<close>
        True t inv1 show ?thesis
        by (auto simp add: stage_iteration_def events_inv_def Let_def own_or_def
            stage_error_event_def TraceEvent_new_def split: if_splits)
    qed
  qed
qed

lemma run_stages_events:
  "events_inv P E s \<Longrightarrow> run_stages E ex jb base_ctx sts s = (r, s') \<Longrightarrow> events_inv P E s'"
proof (induction sts arbitrary: s)
  case Nil
  then show ?case by simp
next
  case (Cons stage rest)
  obtain ir s1 where it: "stage_iteration E ex jb base_ctx stage s = (ir, s1)"
    by (cases "stage_iteration E ex jb base_ctx stage s")
  from stage_iteration_events [OF Cons.prems(1) it] have inv1: "events_inv P E s1" .
  show ?case
  proof (cases ir)
    case (Inl e)
    with Cons.prems(2) it inv1 show ?thesis by simp
  next
    case (Inr fl)
    show ?thesis
    proof (cases fl)
      case Continue
      with Cons.prems(2) it Inr have "run_stages E ex jb base_ctx rest s1 = (r, s')" by simp
      from Cons.IH [OF inv1 this] show ?thesis .
    next
      case Break
      with Cons.prems(2) it Inr inv1 show ?thesis by simp
    next
      case (Return m)
      with Cons.prems(2) it Inr inv1 show ?thesis by simp
    qed
  qed
qed

text \<open>The loop only appends to the events recorded.\<close>

lemma aggregate_appends:
  "aggregate E ex jb stage result s = (r, s') \<Longrightarrow> \<exists>new. all_events s' = all_events s @ new"
  by (auto simp add: aggregate_def Let_def split: option.splits)

lemma try_stage_appends:
  "try_stage E ex jb base_ctx stage s = (r, s') \<Longrightarrow> \<exists>new. all_events s' = all_events s @ new"
  by (auto simp add: try_stage_def Let_def split: prod.splits sum.splits option.splits
      dest: aggregate_appends)

lemma stage_iteration_appends:
  "stage_iteration E ex jb base_ctx stage s = (r, s') \<Longrightarrow>
   \<exists>new. all_events s' = all_events s @ new"
  by (auto simp add: stage_iteration_def Let_def split: prod.splits sum.splits if_splits
      dest: try_stage_appends)

lemma run_stages_appends:
  "run_stages E ex jb base_ctx sts s = (r, s') \<Longrightarrow> \<exists>new. all_events s' = all_events s @ new"
proof (induction sts arbitrary: s)
  case Nil
  then show ?case by simp
next
  case (Cons stage rest)
  obtain ir s1 where it: "stage_iteration E ex jb base_ctx stage s = (ir, s1)"
    by (cases "stage_iteration E ex jb base_ctx stage s")
  from stage_iteration_appends [OF it] obtain n1 where n1: "all_events s1 = all_events s @ n1"
    by blast
  show ?case
  proof (cases ir)
    case (Inl e)
    with Cons.prems it n1 show ?thesis by auto
  next
    case (Inr fl)
    show ?thesis
    proof (cases fl)
      case Continue
      with Cons.prems it Inr have "run_stages E ex jb base_ctx rest s1 = (r, s')" by simp
      from Cons.IH [OF this] obtain n2 where "all_events s' = all_events s1 @ n2" by blast
      with n1 show ?thesis by simp
    next
      case Break
      with Cons.prems it Inr n1 show ?thesis by auto
    next
      case (Return m)
      with Cons.prems it Inr n1 show ?thesis by auto
    qed
  qed
qed

text \<open>
  Claim C7, amended: the executor assigns no sequence values. When every event that the
  plugins of the registry return has a property \<open>P\<close>, every event of the result of an
  execution either has \<open>P\<close>, so is an event as a plugin returns it, or is an event with
  source \<^verbatim>\<open>orchestrator\<close> and the default sequence 0. The first event of every result
  is the pipeline start event of the executor, which has source \<^verbatim>\<open>orchestrator\<close> and
  sequence 0.
\<close>

theorem executor_events_sequence_zero:
  assumes "registry_events P (import_module E) rg"
  shows "(\<forall>e \<in> set (events_of (execute E ex rg jb pipeline_id base_ctx)).
            P e \<or> (sequence e = 0 \<and> source e = orchestrator)) \<and>
         take 1 (events_of (execute E ex rg jb pipeline_id base_ctx))
           = (case PIPELINES E pipeline_id of
                None \<Rightarrow> []
              | Some pipeline \<Rightarrow>
                  if outcome (execute E ex rg jb pipeline_id base_ctx) = None then []
                  else [pipeline_start_event E jb pipeline_id pipeline]) \<and>
         sequence (pipeline_start_event E jb pipeline_id pipeline) = 0 \<and>
         source (pipeline_start_event E jb pipeline_id pipeline) = orchestrator"
proof (cases "PIPELINES E pipeline_id")
  case None
  then show ?thesis
    by (simp add: events_of_def execute_def pipeline_start_event_def TraceEvent_new_def)
next
  case (Some pl)
  obtain r s where rs: "run_stages E ex jb base_ctx (stages pl)
      (initial_state E jb pipeline_id pl rg) = (r, s)"
    by (cases "run_stages E ex jb base_ctx (stages pl)
      (initial_state E jb pipeline_id pl rg)")
  from assms have "events_inv P E (initial_state E jb pipeline_id pl rg)"
    by (simp add: events_inv_def initial_state_def own_or_def TraceEvent_new_def)
  from run_stages_events [OF this rs] have all: "\<forall>e \<in> set (all_events s). own_or P e"
    by (simp add: events_inv_def)
  from run_stages_appends [OF rs] obtain new
    where "all_events s = all_events (initial_state E jb pipeline_id pl rg) @ new" by blast
  then have hd: "take 1 (all_events s) = [pipeline_start_event E jb pipeline_id pl]"
    by (simp add: initial_state_def pipeline_start_event_def)
  have one: "\<forall>e \<in> set (events_of (execute E ex rg jb pipeline_id base_ctx)).
            P e \<or> (sequence e = 0 \<and> source e = orchestrator)"
    using Some rs all
    by (auto simp add: events_of_def execute_def make_result_def own_or_def
        split: sum.splits option.splits)
  have two: "take 1 (events_of (execute E ex rg jb pipeline_id base_ctx))
           = (if outcome (execute E ex rg jb pipeline_id base_ctx) = None then []
              else [pipeline_start_event E jb pipeline_id pl])"
    using Some rs hd
    by (auto simp add: events_of_def outcome_def execute_def make_result_def
        split: sum.splits option.splits)
  from one two Some show ?thesis
    by (simp add: pipeline_start_event_def TraceEvent_new_def)
qed

text \<open>The theorem for claim C7 on the pipeline \<^verbatim>\<open>trace\<close>.\<close>

theorem executor_events_sequence_zero_witness:
  "registry_events from_laintrace (import_module test_env) test_registry \<and>
   list_all (own_or from_laintrace)
     (events_of (execute test_env plain_executor test_registry test_job ''trace'' test_ctx)) \<and>
   take 1 (events_of (execute test_env plain_executor test_registry test_job ''trace'' test_ctx))
     = [pipeline_start_event test_env test_job ''trace''
          (pipeline_of ''trace'' [stage_of ''trace'' ''tracer'' always False])] \<and>
   sequence (pipeline_start_event test_env test_job ''trace''
          (pipeline_of ''trace'' [stage_of ''trace'' ''tracer'' always False])) = 0"
proof -
  have h: "registry_events from_laintrace (import_module test_env) test_registry"
    by (auto simp add: registry_events_def class_events_def impl_events_def test_registry_def
        test_env_def no_import_def returning_def raising_def PluginResult_default_def
        soft_failure_def risky_def clobber_def productive_def tracing_def hook_event_def
        from_laintrace_def TraceEvent_new_def split: if_splits)
  have p: "PIPELINES test_env ''trace''
             = Some (pipeline_of ''trace'' [stage_of ''trace'' ''tracer'' always False])"
    by (simp add: test_env_def test_pipelines_def)
  have o: "outcome (execute test_env plain_executor test_registry test_job ''trace'' test_ctx)
             \<noteq> None"
    by (simp add: run_defs tracing_def hook_event_def)
  show ?thesis
    using executor_events_sequence_zero [OF h, where ex = plain_executor and jb = test_job
        and pipeline_id = "''trace''" and base_ctx = test_ctx
        and pipeline = "pipeline_of ''trace'' [stage_of ''trace'' ''tracer'' always False]"] h p o
    by (simp add: list_all_iff own_or_def)
qed

subsection \<open>The risk score in the pipeline context (claim C8)\<close>

text \<open>
  Claim C8 says that \<^verbatim>\<open>pipeline_context["_risk_score"]\<close> never decreases within a run,
  also for results whose \<^verbatim>\<open>context_data\<close> holds the key \<^verbatim>\<open>_risk_score\<close>. On the
  pipeline \<^verbatim>\<open>risk\<close> the first stage reports the risk score 0.8 and the second reports
  none and returns \<^verbatim>\<open>context_data = {"_risk_score": 0.1}\<close>: the value in the context
  is 0.8 after the first stage and 0.1 after the second.
\<close>

theorem risk_score_overwritten:
  "risk_after test_env plain_executor test_registry test_job test_ctx ''risk''
      (pipeline_of ''risk'' [stage_of ''first'' ''risky'' always False,
                             stage_of ''second'' ''clobber'' always False]) 1
     = Some (PFloat (8 / 10)) \<and>
   risk_after test_env plain_executor test_registry test_job test_ctx ''risk''
      (pipeline_of ''risk'' [stage_of ''first'' ''risky'' always False,
                             stage_of ''second'' ''clobber'' always False]) 2
     = Some (PFloat (1 / 10))"
  by (simp add: risk_after_def run_defs risky_def clobber_def)

text \<open>The running maximum \<^verbatim>\<open>max_risk\<close> itself never decreases.\<close>

lemma max_risk_aggregate:
  "aggregate E ex jb stage result s = (r, s') \<Longrightarrow> max_risk s \<le> max_risk s'"
  by (auto simp add: aggregate_def Let_def split: option.splits)

lemma max_risk_try_stage:
  "try_stage E ex jb base_ctx stage s = (r, s') \<Longrightarrow> max_risk s \<le> max_risk s'"
  by (auto simp add: try_stage_def Let_def split: prod.splits sum.splits option.splits
      dest: max_risk_aggregate)

lemma max_risk_stage_iteration:
  "stage_iteration E ex jb base_ctx stage s = (r, s') \<Longrightarrow> max_risk s \<le> max_risk s'"
  by (auto simp add: stage_iteration_def Let_def split: prod.splits sum.splits if_splits
      dest: max_risk_try_stage)

subsection \<open>The instance cache (claim C9)\<close>

text \<open>An instance in the cache stays there through every later call.\<close>

lemma load_keeps_cache: "instances (snd (load I rg pname)) = instances rg"
  by (simp add: load_def split: option.splits sum.splits)

lemma get_instance_keeps_cache:
  "instances rg k = Some p \<Longrightarrow> instances (snd (get_instance H I rg pname cfg)) k = Some p"
  using load_keeps_cache [of I rg pname]
  by (cases "load I rg pname")
     (auto simp add: get_instance_def Let_def split: sum.splits option.splits)

lemma get_instances_keep_cache:
  "instances rg k = Some p \<Longrightarrow> instances (get_instances H I rg calls) k = Some p"
proof (induction calls arbitrary: rg)
  case Nil
  then show ?case by simp
next
  case (Cons c calls)
  obtain pname cfg where c: "c = (pname, cfg)" by (cases c)
  from Cons.prems have "instances (snd (get_instance H I rg pname cfg)) k = Some p"
    by (rule get_instance_keeps_cache)
  from Cons.IH [OF this] c show ?case by simp
qed

lemma get_instance_stores:
  assumes "get_instance H I rg pname cfg = (Inr p, rg')"
  shows "\<exists>key. cache_key H pname cfg = Inr key \<and> instances rg' key = Some p"
  using assms
  by (auto simp add: get_instance_def Let_def split: sum.splits option.splits prod.splits)

text \<open>
  Claim C9: when \<^verbatim>\<open>get_instance\<close> has returned an instance for a plugin id and a
  configuration, a later call with the same plugin id and an equal configuration, after
  any number of other calls of \<^verbatim>\<open>get_instance\<close> in between, returns the same instance,
  with the same identity, and leaves the registry as it was: nothing is constructed. The
  cache is keyed by the plugin id and the hash of the configuration, so what the second
  configuration needs is the same hash; equal configurations have it, and so have
  \<^verbatim>\<open>None\<close> and the empty dictionary, which \<^verbatim>\<open>config or {}\<close> makes equal.
\<close>

theorem get_instance_cached:
  assumes "get_instance H I rg pname cfg = (Inr p, rg')"
    and "H (config_or_empty cfg') = H (config_or_empty cfg)"
  shows "get_instance H I (get_instances H I rg' calls) pname cfg'
           = (Inr p, get_instances H I rg' calls)"
proof -
  from get_instance_stores [OF assms(1)] obtain key
    where k: "cache_key H pname cfg = Inr key" and i: "instances rg' key = Some p" by blast
  from k assms(2) have k': "cache_key H pname cfg' = Inr key"
    by (simp add: cache_key_def)
  from get_instances_keep_cache [OF i]
  have "instances (get_instances H I rg' calls) key = Some p" .
  with k' show ?thesis by (simp add: get_instance_def)
qed

text \<open>
  The theorem for claim C9 on the calls for \<^verbatim>\<open>ok\<close>, \<^verbatim>\<open>soft\<close> and \<^verbatim>\<open>ok\<close> again: the
  identities are 0, 1 and 0.
\<close>

theorem get_instance_cached_witness:
  "get_instance hash_zero no_import test_registry ''ok'' (Some Map.empty)
     = (Inr (instance_of 0 ''ok'' PluginResult_default),
        registry_with ''ok:0'' (instance_of 0 ''ok'' PluginResult_default)) \<and>
   hash_zero (config_or_empty None) = hash_zero (config_or_empty (Some Map.empty)) \<and>
   map_sum str_exn obj_id
     (fst (get_instance hash_zero no_import
        (registry_with ''ok:0'' (instance_of 0 ''ok'' PluginResult_default))
        ''soft'' (Some Map.empty))) = Inr 1 \<and>
   map_sum str_exn obj_id
     (fst (get_instance hash_zero no_import
        (get_instances hash_zero no_import
           (registry_with ''ok:0'' (instance_of 0 ''ok'' PluginResult_default))
           [(''soft'', Some Map.empty)])
        ''ok'' None)) = Inr 0 \<and>
   get_instance hash_zero no_import
       (get_instances hash_zero no_import
          (registry_with ''ok:0'' (instance_of 0 ''ok'' PluginResult_default))
          [(''soft'', Some Map.empty)])
       ''ok'' None
     = (Inr (instance_of 0 ''ok'' PluginResult_default),
        get_instances hash_zero no_import
          (registry_with ''ok:0'' (instance_of 0 ''ok'' PluginResult_default))
          [(''soft'', Some Map.empty)])"
proof -
  have k: "cache_key hash_zero ''ok'' (Some Map.empty) = Inr ''ok:0''"
    by (simp add: cache_key_def hash_zero_def str_int_def str_nat.simps digit_char_def
        config_or_empty_def)
  have first: "get_instance hash_zero no_import test_registry ''ok'' (Some Map.empty)
     = (Inr (instance_of 0 ''ok'' PluginResult_default),
        registry_with ''ok:0'' (instance_of 0 ''ok'' PluginResult_default))"
    by (simp add: get_instance_def k load_def test_registry_def returning_def
        instance_of_def registry_with_def config_or_empty_def Let_def)
  have c: "hash_zero (config_or_empty None) = hash_zero (config_or_empty (Some Map.empty))"
    by (simp add: hash_zero_def)
  have k2: "cache_key hash_zero ''soft'' (Some Map.empty) = Inr ''soft:0''"
    by (simp add: cache_key_def hash_zero_def str_int_def str_nat.simps digit_char_def
        config_or_empty_def)
  have second: "map_sum str_exn obj_id
     (fst (get_instance hash_zero no_import
        (registry_with ''ok:0'' (instance_of 0 ''ok'' PluginResult_default))
        ''soft'' (Some Map.empty))) = Inr 1"
    by (simp add: get_instance_def k2 load_def test_registry_def returning_def
        registry_with_def config_or_empty_def Let_def)
  show ?thesis
    using get_instance_cached [OF first c, of "[(''soft'', Some Map.empty)]"] first c second
    by (simp add: instance_of_def)
qed

subsection \<open>\<^verbatim>\<open>conditional\<close> without an expression (claim C10)\<close>



end
